theory Spec2Isabelle
  imports Main "HOL-Library.Word"
begin

unbundle bit_operations_syntax

section \<open>Machine types\<close>

type_synonym u8 = "8 word"
type_synonym u16 = "16 word"
type_synonym u32 = "32 word"

text \<open>
  \<open>size_t\<close> values that only count or index are natural numbers. The one place of
  \<open>ppu.c\<close> where a negative \<open>int32_t\<close> is converted to \<open>size_t\<close> (the sprite
  column test of \<open>ppu_draw_line\<close>) uses a 64-bit word, so that the conversion wraps as
  in C.
\<close>

type_synonym size_t = "64 word"

section \<open>Constants of \<open>ppu.c\<close> and \<open>gameboy.h\<close>\<close>

definition LCDC_LCD_ENABLE_BIT :: u8 where [simp]: "LCDC_LCD_ENABLE_BIT = 0x80"
definition LCDC_WINDOW_MAP_BIT :: u8 where [simp]: "LCDC_WINDOW_MAP_BIT = 0x40"
definition LCDC_WINDOW_ENABLE_BIT :: u8 where [simp]: "LCDC_WINDOW_ENABLE_BIT = 0x20"
definition LCDC_BG_WINDOW_MODE_BIT :: u8 where [simp]: "LCDC_BG_WINDOW_MODE_BIT = 0x10"
definition LCDC_BG_MAP_BIT :: u8 where [simp]: "LCDC_BG_MAP_BIT = 0x08"
definition LCDC_SPRITE_SIZE_BIT :: u8 where [simp]: "LCDC_SPRITE_SIZE_BIT = 0x04"
definition LCDC_SPRITE_ENABLE_BIT :: u8 where [simp]: "LCDC_SPRITE_ENABLE_BIT = 0x02"
definition LCDC_BG_ENABLE_BIT :: u8 where [simp]: "LCDC_BG_ENABLE_BIT = 0x01"

definition STAT_UNUSED_BIT :: u8 where [simp]: "STAT_UNUSED_BIT = 0x80"
definition STAT_WRITE_BITS :: u8 where [simp]: "STAT_WRITE_BITS = 0x7C"
definition STAT_LY_LYC_COMPARSION_ENABLE :: u8 where [simp]: "STAT_LY_LYC_COMPARSION_ENABLE = 0x40"
definition STAT_OAM_SEARCH_CHECK_ENABLE :: u8 where [simp]: "STAT_OAM_SEARCH_CHECK_ENABLE = 0x20"
definition STAT_VBLANK_CHECK_ENABLE :: u8 where [simp]: "STAT_VBLANK_CHECK_ENABLE = 0x10"
definition STAT_HBLANK_CHECK_ENABLE :: u8 where [simp]: "STAT_HBLANK_CHECK_ENABLE = 0x08"
definition STAT_LY_LYC_COMPARISON_SIGNAL :: u8 where [simp]: "STAT_LY_LYC_COMPARISON_SIGNAL = 0x04"
definition STAT_MODE_BITS :: u8 where [simp]: "STAT_MODE_BITS = 0x03"

definition SPRITE_TO_BG_PRIORITY_BIT :: u8 where [simp]: "SPRITE_TO_BG_PRIORITY_BIT = 0x80"
definition SPRITE_FLIP_Y_BIT :: u8 where [simp]: "SPRITE_FLIP_Y_BIT = 0x40"
definition SPRITE_FLIP_X_BIT :: u8 where [simp]: "SPRITE_FLIP_X_BIT = 0x20"

definition PPU_HBLANK_LENGTH :: nat where [simp]: "PPU_HBLANK_LENGTH = 50"
definition PPU_VBLANK_LENGTH :: nat where [simp]: "PPU_VBLANK_LENGTH = 114"
definition PPU_OAM_SEARCH_LENGTH :: nat where [simp]: "PPU_OAM_SEARCH_LENGTH = 21"
definition PPU_DATA_TRANSFER_LENGTH :: nat where [simp]: "PPU_DATA_TRANSFER_LENGTH = 43"

definition PPU_BYTES_PER_TILE :: nat where [simp]: "PPU_BYTES_PER_TILE = 16"
definition PPU_BYTES_PER_ROW :: nat where [simp]: "PPU_BYTES_PER_ROW = 2"
definition PPU_TS_WIDTH_IN_TILES :: nat where [simp]: "PPU_TS_WIDTH_IN_TILES = 16"
definition PPU_BG_TILE_COUNT :: nat where [simp]: "PPU_BG_TILE_COUNT = 1024"
definition PPU_BG_WIDTH_IN_TILES :: nat where [simp]: "PPU_BG_WIDTH_IN_TILES = 32"
definition PPU_BACKGROUND1_START :: nat where [simp]: "PPU_BACKGROUND1_START = 0x1800"
definition PPU_BACKGROUND2_START :: nat where [simp]: "PPU_BACKGROUND2_START = 0x1C00"
definition PPU_LCD_COLOR_CODE :: u8 where [simp]: "PPU_LCD_COLOR_CODE = 4"

definition GAMEBOY_DISPLAY_WIDTH :: nat where [simp]: "GAMEBOY_DISPLAY_WIDTH = 160"
definition GAMEBOY_DISPLAY_HEIGHT :: nat where [simp]: "GAMEBOY_DISPLAY_HEIGHT = 144"

text \<open>The table \<open>scx_cycle_offsets\<close>, indexed by \<open>scx % 8\<close>.\<close>

definition scx_cycle_offsets :: "nat list" where
  "scx_cycle_offsets = [0, 1, 1, 1, 1, 2, 2, 2]"

subsection \<open>Declarations of headers that are not among the sources\<close>

text \<open>
  \<open>ppu.c\<close> includes \<open>ppu.h\<close> and \<open>interrupt_controller.h\<close>; neither is part of the
  sources. The enumerators of \<open>GraphicsMode\<close> and the two interrupt bits have values
  the specification does not give, so they are parameters of the model: every operation
  that uses one takes the record below. \<open>ppu_get_mode\<close> returns
  \<open>stat & STAT_MODE_BITS\<close> as a \<open>GraphicsMode\<close> and \<open>ppu_cycle\<close> switches on the four
  enumerators, so a well-formed header gives four different values, each inside the two
  mode bits.
\<close>

record Header =
  GRAPHICS_MODE_HBLANK :: u8
  GRAPHICS_MODE_VBLANK :: u8
  GRAPHICS_MODE_OAM_SEARCH :: u8
  GRAPHICS_MODE_DATA_TRANSFER :: u8
  VBLANK_INTERRUPT_BIT :: u8
  LCD_STAT_INTERRUPT_BIT :: u8

definition mode_codes_ok :: "Header \<Rightarrow> bool" where
  "mode_codes_ok h =
     (distinct [GRAPHICS_MODE_HBLANK h, GRAPHICS_MODE_VBLANK h,
                GRAPHICS_MODE_OAM_SEARCH h, GRAPHICS_MODE_DATA_TRANSFER h]
      \<and> GRAPHICS_MODE_HBLANK h AND STAT_MODE_BITS = GRAPHICS_MODE_HBLANK h
      \<and> GRAPHICS_MODE_VBLANK h AND STAT_MODE_BITS = GRAPHICS_MODE_VBLANK h
      \<and> GRAPHICS_MODE_OAM_SEARCH h AND STAT_MODE_BITS = GRAPHICS_MODE_OAM_SEARCH h
      \<and> GRAPHICS_MODE_DATA_TRANSFER h AND STAT_MODE_BITS = GRAPHICS_MODE_DATA_TRANSFER h)"

text \<open>The encoding of the hardware registers, used wherever a concrete header is needed.\<close>

definition dmg_header :: Header where
  "dmg_header =
     \<lparr>GRAPHICS_MODE_HBLANK = 0, GRAPHICS_MODE_VBLANK = 1,
      GRAPHICS_MODE_OAM_SEARCH = 2, GRAPHICS_MODE_DATA_TRANSFER = 3,
      VBLANK_INTERRUPT_BIT = 0x01, LCD_STAT_INTERRUPT_BIT = 0x02\<rparr>"

text \<open>
  Modelled from the spec: the size macros of \<open>ppu.h\<close>, which is not among the sources.
  The specification gives a tile as an 8 by 8 grid ("for each of 8 horizontal pixel
  positions"), the display as 160 by 144, the background layer as 256 by 256 and the
  tile set as 384 tiles in a grid of fixed width (16 tiles of 8 pixels by
  \<open>PPU_TS_WIDTH_IN_TILES\<close>, hence 24 rows of tiles).
\<close>

definition PPU_PIXELS_PER_TILE_ROW :: nat where "PPU_PIXELS_PER_TILE_ROW = 8"
definition PPU_ROWS_PER_TILE :: nat where "PPU_ROWS_PER_TILE = 8"
definition PPU_DISPLAY_WIDTH :: nat where "PPU_DISPLAY_WIDTH = 160"
definition PPU_DISPLAY_HEIGHT :: nat where "PPU_DISPLAY_HEIGHT = 144"
definition PPU_BG_WIDTH_IN_PIXELS :: nat where "PPU_BG_WIDTH_IN_PIXELS = 256"
definition PPU_BG_HEIGHT_IN_PIXELS :: nat where "PPU_BG_HEIGHT_IN_PIXELS = 256"
definition PPU_TS_TILE_COUNT :: nat where "PPU_TS_TILE_COUNT = 384"
definition PPU_TS_WIDTH_IN_PIXELS :: nat where "PPU_TS_WIDTH_IN_PIXELS = 128"
definition PPU_TS_HEIGHT_IN_PIXELS :: nat where "PPU_TS_HEIGHT_IN_PIXELS = 192"

section \<open>Controller state\<close>

text \<open>
  The fields \<open>ppu.c\<close> reads and writes through \<open>gb->ppu\<close>. The registers are bytes
  (the bus accessors return \<open>uint8_t\<close>). The struct declaration is in \<open>ppu.h\<close>, so
  the integer types of the dot counter and of the window line counter are not known:
  they are type parameters, instantiated below with words of an arbitrary width. The
  four arrays are indexed without any range check in the source; each is a total
  function of the index here.
\<close>

record ('cnt, 'wil) PPU =
  lcdc :: u8
  stat :: u8
  scy :: u8
  scx :: u8
  ly :: u8
  lyc :: u8
  bgp :: u8
  obp0 :: u8
  obp1 :: u8
  wy :: u8
  wx :: u8
  window_internal_line :: 'wil
  count :: 'cnt
  vram :: "nat \<Rightarrow> u8"
  oam :: "nat \<Rightarrow> u8"
  tile_buffer :: "nat \<Rightarrow> nat \<Rightarrow> nat \<Rightarrow> u8"
  display_buffer :: "nat \<Rightarrow> u8"

record InterruptController =
  flags :: u8

text \<open>Of \<open>struct GameBoy\<close> only the two components \<open>ppu.c\<close> dereferences.\<close>

record ('cnt, 'wil) GameBoy =
  ppu :: "('cnt, 'wil) PPU"
  interrupt_controller :: InterruptController

section \<open>Initialization\<close>

definition ppu_initialize ::
  "('c::len word, 'w::len word) PPU \<Rightarrow> bool \<Rightarrow> ('c word, 'w word) PPU" where
  "ppu_initialize p skip_bootrom =
     p\<lparr>lcdc := 0x91, stat := 0x00, scy := 0x00, scx := 0x00, ly := 0x00, lyc := 0x00,
       bgp := 0xFC, obp0 := 0xFF, obp1 := 0xFF, wy := 0x00, wx := 0x00,
       window_internal_line := 0, count := 80\<rparr>"

section \<open>Mode entry and scanline comparison\<close>

definition ppu_hblank_enter ::
  "Header \<Rightarrow> ('c::len word, 'w::len word) GameBoy \<Rightarrow> ('c word, 'w word) GameBoy" where
  "ppu_hblank_enter h gb =
     gb\<lparr>ppu := (ppu gb)
       \<lparr>stat := (stat (ppu gb) AND NOT STAT_MODE_BITS) OR GRAPHICS_MODE_HBLANK h,
        count := count (ppu gb)
          + of_nat (PPU_HBLANK_LENGTH - scx_cycle_offsets ! (unat (scx (ppu gb)) mod 8))\<rparr>\<rparr>"

definition ppu_vblank_enter ::
  "Header \<Rightarrow> ('c::len word, 'w::len word) GameBoy \<Rightarrow> ('c word, 'w word) GameBoy" where
  "ppu_vblank_enter h gb =
     (let stat' = (stat (ppu gb) AND NOT STAT_MODE_BITS) OR GRAPHICS_MODE_VBLANK h;
          gb1 = gb\<lparr>ppu := (ppu gb)
                  \<lparr>stat := stat',
                   count := count (ppu gb) + of_nat PPU_VBLANK_LENGTH,
                   window_internal_line := 0\<rparr>\<rparr>;
          gb2 = gb1\<lparr>interrupt_controller := (interrupt_controller gb1)
                  \<lparr>flags := flags (interrupt_controller gb1) OR VBLANK_INTERRUPT_BIT h\<rparr>\<rparr>
      in if stat' AND STAT_VBLANK_CHECK_ENABLE \<noteq> 0 \<or> stat' AND STAT_OAM_SEARCH_CHECK_ENABLE \<noteq> 0
         then gb2\<lparr>interrupt_controller := (interrupt_controller gb2)
                  \<lparr>flags := flags (interrupt_controller gb2) OR LCD_STAT_INTERRUPT_BIT h\<rparr>\<rparr>
         else gb2)"

definition ppu_oam_search_enter ::
  "Header \<Rightarrow> ('c::len word, 'w::len word) GameBoy \<Rightarrow> ('c word, 'w word) GameBoy" where
  "ppu_oam_search_enter h gb =
     (let stat' = (stat (ppu gb) AND NOT STAT_MODE_BITS) OR GRAPHICS_MODE_OAM_SEARCH h;
          gb1 = gb\<lparr>ppu := (ppu gb)
                  \<lparr>stat := stat',
                   count := count (ppu gb) + of_nat PPU_OAM_SEARCH_LENGTH\<rparr>\<rparr>
      in if stat' AND STAT_OAM_SEARCH_CHECK_ENABLE \<noteq> 0
         then gb1\<lparr>interrupt_controller := (interrupt_controller gb1)
                  \<lparr>flags := flags (interrupt_controller gb1) OR LCD_STAT_INTERRUPT_BIT h\<rparr>\<rparr>
         else gb1)"

definition ppu_data_transfer_enter ::
  "Header \<Rightarrow> ('c::len word, 'w::len word) GameBoy \<Rightarrow> ('c word, 'w word) GameBoy" where
  "ppu_data_transfer_enter h gb =
     gb\<lparr>ppu := (ppu gb)
       \<lparr>stat := (stat (ppu gb) AND NOT STAT_MODE_BITS) OR GRAPHICS_MODE_DATA_TRANSFER h,
        count := count (ppu gb)
          + of_nat (PPU_DATA_TRANSFER_LENGTH + scx_cycle_offsets ! (unat (scx (ppu gb)) mod 8))\<rparr>\<rparr>"

definition ppu_compare_ly_lyc ::
  "Header \<Rightarrow> ('c::len word, 'w::len word) GameBoy \<Rightarrow> ('c word, 'w word) GameBoy" where
  "ppu_compare_ly_lyc h gb =
     (if ly (ppu gb) \<noteq> lyc (ppu gb)
      then gb\<lparr>ppu := (ppu gb)\<lparr>stat := stat (ppu gb) AND NOT STAT_LY_LYC_COMPARISON_SIGNAL\<rparr>\<rparr>
      else
        let stat' = stat (ppu gb) OR STAT_LY_LYC_COMPARISON_SIGNAL;
            gb1 = gb\<lparr>ppu := (ppu gb)\<lparr>stat := stat'\<rparr>\<rparr>
        in if stat' AND STAT_LY_LYC_COMPARSION_ENABLE \<noteq> 0
           then gb1\<lparr>interrupt_controller := (interrupt_controller gb1)
                    \<lparr>flags := flags (interrupt_controller gb1) OR LCD_STAT_INTERRUPT_BIT h\<rparr>\<rparr>
           else gb1)"

section \<open>Register and memory accessors\<close>

definition ppu_read_lcdc :: "('c, 'w) GameBoy \<Rightarrow> u8" where
  "ppu_read_lcdc gb = lcdc (ppu gb)"

definition ppu_write_lcdc ::
  "('c::len word, 'w) GameBoy \<Rightarrow> u8 \<Rightarrow> ('c word, 'w) GameBoy" where
  "ppu_write_lcdc gb v =
     (let gb1 = (if v AND LCDC_LCD_ENABLE_BIT = 0
                 then gb\<lparr>ppu := (ppu gb)\<lparr>ly := 0, count := 115,
                                          stat := stat (ppu gb) AND 0xFC\<rparr>\<rparr>
                 else gb)
      in gb1\<lparr>ppu := (ppu gb1)\<lparr>lcdc := v\<rparr>\<rparr>)"

definition ppu_read_stat :: "('c, 'w) GameBoy \<Rightarrow> u8" where
  "ppu_read_stat gb = stat (ppu gb) OR STAT_UNUSED_BIT"

definition ppu_write_stat :: "('c, 'w) GameBoy \<Rightarrow> u8 \<Rightarrow> ('c, 'w) GameBoy" where
  "ppu_write_stat gb v =
     (let gb1 = gb\<lparr>ppu := (ppu gb)\<lparr>stat := stat (ppu gb) AND NOT STAT_WRITE_BITS\<rparr>\<rparr>
      in gb1\<lparr>ppu := (ppu gb1)\<lparr>stat := stat (ppu gb1) OR (v AND STAT_WRITE_BITS)\<rparr>\<rparr>)"

definition ppu_read_oam :: "('c, 'w) GameBoy \<Rightarrow> u16 \<Rightarrow> u8" where
  "ppu_read_oam gb address = oam (ppu gb) (unat address)"

definition ppu_write_oam ::
  "Header \<Rightarrow> ('c, 'w) GameBoy \<Rightarrow> u16 \<Rightarrow> u8 \<Rightarrow> ('c, 'w) GameBoy" where
  "ppu_write_oam h gb address v =
     (if stat (ppu gb) AND STAT_MODE_BITS = GRAPHICS_MODE_DATA_TRANSFER h then gb
      else if stat (ppu gb) AND STAT_MODE_BITS = GRAPHICS_MODE_OAM_SEARCH h then gb
      else gb\<lparr>ppu := (ppu gb)\<lparr>oam := (oam (ppu gb))(unat address := v)\<rparr>\<rparr>)"

definition ppu_read_vram :: "('c, 'w) GameBoy \<Rightarrow> u16 \<Rightarrow> u8" where
  "ppu_read_vram gb address = vram (ppu gb) (unat address)"

text \<open>
  \<open>ppu_write_vram\<close>: the byte is stored first; below \<open>0x1800\<close> the row of the tile
  cache that the byte belongs to is then decoded again from the byte pair at
  \<open>address & 0xFFFE\<close>.
\<close>

definition ppu_write_vram :: "('c, 'w) GameBoy \<Rightarrow> u16 \<Rightarrow> u8 \<Rightarrow> ('c, 'w) GameBoy" where
  "ppu_write_vram gb address v =
     (let gb1 = gb\<lparr>ppu := (ppu gb)\<lparr>vram := (vram (ppu gb))(unat address := v)\<rparr>\<rparr>
      in if address < 0x1800 then
           let byte1 = vram (ppu gb1) (unat (address AND 0xFFFE));
               byte2 = vram (ppu gb1) (unat (address AND 0xFFFE) + 1);
               tile = unat address div PPU_BYTES_PER_TILE;
               row = (unat address mod PPU_BYTES_PER_TILE) div PPU_BYTES_PER_ROW
           in gb1\<lparr>ppu := (ppu gb1)\<lparr>tile_buffer :=
                fold (\<lambda>pixel tb.
                        let mask = (push_bit (7 - pixel) 1 :: u8);
                            bit1 = byte1 AND mask;
                            bit2 = byte2 AND mask;
                            color_code = (if bit1 \<noteq> 0 then (if bit2 \<noteq> 0 then 3 else 1)
                                          else (if bit2 \<noteq> 0 then 2 else 0))
                        in tb(tile := (tb tile)(row := (tb tile row)(pixel := color_code))))
                     [0..<PPU_PIXELS_PER_TILE_ROW] (tile_buffer (ppu gb1))\<rparr>\<rparr>
         else gb1)"

definition ppu_get_mode :: "('c, 'w) GameBoy \<Rightarrow> u8" where
  "ppu_get_mode gb = stat (ppu gb) AND STAT_MODE_BITS"

section \<open>The line renderer\<close>

text \<open>
  \<open>ppu_draw_line\<close> is three blocks in sequence: background, window, sprites. Each
  block is one function here; all arithmetic follows the C types of the locals
  (\<open>uint8_t\<close> wraps, \<open>int32_t\<close> is an integer, tile identifiers and indices are
  naturals).
\<close>

definition ppu_draw_line_background ::
  "('c, 'w) PPU \<Rightarrow> ('c, 'w) PPU" where
  "ppu_draw_line_background p =
     (if lcdc p AND LCDC_BG_ENABLE_BIT \<noteq> 0 then
        let background_row = scy p + ly p
        in p\<lparr>display_buffer :=
             fold (\<lambda>i db.
                let background_column = scx p + of_nat i;
                    map_offset = (if lcdc p AND LCDC_BG_MAP_BIT \<noteq> 0
                                  then PPU_BACKGROUND2_START else PPU_BACKGROUND1_START);
                    tile_id = unat (vram p (map_offset + unat background_column div 8
                                + unat background_row div 8 * PPU_BG_WIDTH_IN_TILES));
                    tile_id = (if lcdc p AND LCDC_BG_WINDOW_MODE_BIT \<noteq> 0 then tile_id
                               else tile_id + 256 * (if tile_id < 128 then 1 else 0));
                    color = tile_buffer p tile_id (unat background_row mod 8)
                              (unat background_column mod 8);
                    offset = color * 2;
                    bits = (push_bit (unat offset) 3 :: u8);
                    color = drop_bit (unat offset) (bgp p AND bits)
                in db(i + unat (ly p) * GAMEBOY_DISPLAY_WIDTH := color))
              [0..<GAMEBOY_DISPLAY_WIDTH] (display_buffer p)\<rparr>
      else p)"

definition ppu_draw_line_window ::
  "('c, 'w::len word) PPU \<Rightarrow> ('c, 'w word) PPU" where
  "ppu_draw_line_window p =
     (if lcdc p AND LCDC_WINDOW_ENABLE_BIT \<noteq> 0 \<and> wy p \<le> ly p \<and> uint (wx p) - 7 \<le> 0xA6 then
        let wx' = wx p - 7;
            map_offset = (if lcdc p AND LCDC_WINDOW_MAP_BIT \<noteq> 0
                          then PPU_BACKGROUND2_START else PPU_BACKGROUND1_START);
            db' = fold (\<lambda>i db.
                let window_column = scx p + of_nat i;
                    window_column = (if window_column \<ge> wx' then of_nat i - wx'
                                     else window_column);
                    tile_id = unat (vram p (map_offset + unat window_column div 8
                                + unat (window_internal_line p) div 8 * PPU_BG_WIDTH_IN_TILES));
                    tile_id = (if lcdc p AND LCDC_BG_WINDOW_MODE_BIT \<noteq> 0 then tile_id
                               else tile_id + 256 * (if tile_id < 128 then 1 else 0));
                    color = tile_buffer p tile_id (unat (window_internal_line p) mod 8)
                              (unat window_column mod 8);
                    offset = color * 2;
                    bits = (push_bit (unat offset) 3 :: u8);
                    color = drop_bit (unat offset) (bgp p AND bits)
                in db(i + unat (ly p) * GAMEBOY_DISPLAY_WIDTH := color))
              [unat wx'..<GAMEBOY_DISPLAY_WIDTH] (display_buffer p)
        in p\<lparr>display_buffer := db', window_internal_line := window_internal_line p + 1\<rparr>
      else p)"

subsection \<open>Sprites\<close>

text \<open>
  The local array \<open>sprites[10][4]\<close> with its fill count \<open>sprite_count\<close> is a list of
  four-byte entries (Y, X, tile, attributes); its length is \<open>sprite_count\<close>.

  The scan of the 40 object entries, with its \<open>break\<close> at the tenth match.
\<close>

fun select_sprites ::
  "(nat \<Rightarrow> u8) \<Rightarrow> u8 \<Rightarrow> u8 \<Rightarrow> nat list \<Rightarrow> u8 list list \<Rightarrow> u8 list list" where
  "select_sprites om line sprite_size [] sprites = sprites"
| "select_sprites om line sprite_size (i # is) sprites =
     (let sprite_y = uint (om (i * 4)) - 16
      in if sprite_y \<le> uint line \<and> uint line - sprite_y < uint sprite_size then
           let sprites' = sprites @ [[om (i * 4), om (i * 4 + 1), om (i * 4 + 2), om (i * 4 + 3)]]
           in if length sprites' = 10 then sprites'
              else select_sprites om line sprite_size is sprites'
         else select_sprites om line sprite_size is sprites)"

text \<open>
  The sort: for each position \<open>i\<close> the inner loop finds the first entry of least X at
  or after \<open>i\<close>, and that entry is exchanged with the one at \<open>i\<close>.
\<close>

definition sprite_min_x :: "u8 list list \<Rightarrow> nat \<Rightarrow> nat" where
  "sprite_min_x sprites i =
     fold (\<lambda>k m. if sprites ! k ! 1 < sprites ! m ! 1 then k else m)
          [i + 1..<length sprites] i"

definition sort_sprites :: "u8 list list \<Rightarrow> u8 list list" where
  "sort_sprites sprites =
     (if length sprites > 1 then
        fold (\<lambda>i sp. let m = sprite_min_x sp i
                      in if m \<noteq> i then sp[i := sp ! m, m := sp ! i] else sp)
             [0..<length sprites - 1] sprites
      else sprites)"

text \<open>
  Painting one entry. \<open>sprite_x + tile_column\<close> adds an \<open>int32_t\<close> and a \<open>size_t\<close>,
  so the sum is unsigned: the test \<open>< 0\<close> never holds and a negative position shows as
  a value above 159.
\<close>

definition draw_sprite ::
  "('c, 'w) PPU \<Rightarrow> u8 \<Rightarrow> u8 list \<Rightarrow> (nat \<Rightarrow> u8) \<Rightarrow> nat \<Rightarrow> u8" where
  "draw_sprite p sprite_size spr db0 =
     (let sprite_y = uint (spr ! 0) - 16;
          sprite_x = uint (spr ! 1) - 8;
          sprite_t = spr ! 2;
          sprite_a = spr ! 3;
          flip_x = (drop_bit 5 (sprite_a AND SPRITE_FLIP_X_BIT) \<noteq> 0);
          priority = (drop_bit 7 (sprite_a AND SPRITE_TO_BG_PRIORITY_BIT) \<noteq> 0);
          tile_id = (if sprite_size = 16 then unat (sprite_t AND 0xFE) else unat sprite_t);
          tile_row = (if sprite_a AND SPRITE_FLIP_Y_BIT \<noteq> 0
                      then word_of_int (uint sprite_size - 1 - (uint (ly p) - sprite_y))
                      else word_of_int (uint (ly p) - sprite_y) :: u8);
          (tile_id, tile_row) = (if tile_row \<ge> 8 then (tile_id + 1, tile_row - 8)
                                 else (tile_id, tile_row))
      in fold (\<lambda>tile_column db.
                 let pos = (word_of_int sprite_x :: size_t) + of_nat tile_column
                 in if pos < 0 \<or> pos > of_nat (GAMEBOY_DISPLAY_WIDTH - 1) then db
                    else
                      let color = tile_buffer p tile_id (unat (tile_row AND 0x7))
                                    (if flip_x then 7 - tile_column else tile_column)
                      in if color \<noteq> 0 \<and> (\<not> priority \<or> (priority \<and>
                              db (unat pos + unat (ly p) * GAMEBOY_DISPLAY_WIDTH) = 0)) then
                           let offset = color * 2;
                               bits = (push_bit (unat offset) 3 :: u8);
                               palette = (if drop_bit 4 sprite_a AND 1 \<noteq> 0 then obp1 p
                                          else obp0 p);
                               color = drop_bit (unat offset) (palette AND bits)
                           in db(unat pos + unat (ly p) * GAMEBOY_DISPLAY_WIDTH := color)
                         else db)
              [0..<8] db0)"

definition ppu_draw_line_sprites :: "('c, 'w) PPU \<Rightarrow> ('c, 'w) PPU" where
  "ppu_draw_line_sprites p =
     (if lcdc p AND LCDC_SPRITE_ENABLE_BIT \<noteq> 0 then
        let sprite_size = (if lcdc p AND LCDC_SPRITE_SIZE_BIT \<noteq> 0 then 16 else 8);
            sprites = select_sprites (oam p) (ly p) sprite_size [0..<40] [];
            sprites = sort_sprites sprites
        in p\<lparr>display_buffer :=
             fold (\<lambda>i db. draw_sprite p sprite_size (sprites ! (i - 1)) db)
                  (rev [1..<Suc (length sprites)]) (display_buffer p)\<rparr>
      else p)"

definition ppu_draw_line ::
  "('c, 'w::len word) GameBoy \<Rightarrow> ('c, 'w word) GameBoy" where
  "ppu_draw_line gb =
     gb\<lparr>ppu := ppu_draw_line_sprites (ppu_draw_line_window (ppu_draw_line_background (ppu gb)))\<rparr>"

section \<open>The per-dot advance\<close>

definition ppu_cycle ::
  "Header \<Rightarrow> ('c::len word, 'w::len word) GameBoy \<Rightarrow> ('c word, 'w word) GameBoy" where
  "ppu_cycle h gb =
     (if lcdc (ppu gb) AND LCDC_LCD_ENABLE_BIT = 0 then gb
      else
        let gb1 = gb\<lparr>ppu := (ppu gb)\<lparr>count := count (ppu gb) - 1\<rparr>\<rparr>;
            gb2 = (if count (ppu gb1) = 1
                      \<and> stat (ppu gb1) AND STAT_MODE_BITS = GRAPHICS_MODE_DATA_TRANSFER h
                   then (if stat (ppu gb1) AND STAT_HBLANK_CHECK_ENABLE \<noteq> 0
                         then gb1\<lparr>interrupt_controller := (interrupt_controller gb1)
                                \<lparr>flags := flags (interrupt_controller gb1)
                                            OR LCD_STAT_INTERRUPT_BIT h\<rparr>\<rparr>
                         else gb1)
                   else gb1)
        in if count (ppu gb2) \<noteq> 0 then gb2
           else
             let m = stat (ppu gb2) AND STAT_MODE_BITS
             in if m = GRAPHICS_MODE_HBLANK h then
                  let gb3 = gb2\<lparr>ppu := (ppu gb2)\<lparr>ly := ly (ppu gb2) + 1\<rparr>\<rparr>
                  in ppu_compare_ly_lyc h
                       (if ly (ppu gb3) < 144 then ppu_oam_search_enter h gb3
                        else ppu_vblank_enter h gb3)
                else if m = GRAPHICS_MODE_VBLANK h then
                  let gb3 = gb2\<lparr>ppu := (ppu gb2)\<lparr>ly := ly (ppu gb2) + 1\<rparr>\<rparr>
                  in ppu_compare_ly_lyc h
                       (if ly (ppu gb3) > 153
                        then ppu_oam_search_enter h (gb3\<lparr>ppu := (ppu gb3)\<lparr>ly := 0\<rparr>\<rparr>)
                        else gb3\<lparr>ppu := (ppu gb3)
                               \<lparr>count := count (ppu gb3) + of_nat PPU_VBLANK_LENGTH\<rparr>\<rparr>)
                else if m = GRAPHICS_MODE_OAM_SEARCH h then ppu_data_transfer_enter h gb2
                else if m = GRAPHICS_MODE_DATA_TRANSFER h then
                  ppu_hblank_enter h (ppu_draw_line gb2)
                else gb2)"

section \<open>Export routines\<close>

definition get_pixel_color :: "u8 \<Rightarrow> u32" where
  "get_pixel_color color_code =
     (if color_code = 0 then 0xF5F5F5F5
      else if color_code = 1 then 0xAAAAAAAA
      else if color_code = 2 then 0x55555555
      else if color_code = 3 then 0x01010101
      else if color_code = 4 then 0x00000000
      else 0x00FF00FF)"

text \<open>
  The destination \<open>data\<close> is a function from element index to element; a routine
  returns the destination after its stores together with its return value. The
  requested count \<open>len\<close> is the parameter \<open>length\<close> of the source.
\<close>

function display_data_loop ::
  "('c, 'w) PPU \<Rightarrow> nat \<Rightarrow> nat \<Rightarrow> (nat \<Rightarrow> u32) \<Rightarrow> (nat \<Rightarrow> u32) \<times> nat" where
  "display_data_loop p len x data =
     (if x < PPU_DISPLAY_WIDTH * PPU_DISPLAY_HEIGHT then
        let data' = (if lcdc p AND LCDC_LCD_ENABLE_BIT \<noteq> 0
                     then data(x := get_pixel_color (display_buffer p x))
                     else data(x := get_pixel_color PPU_LCD_COLOR_CODE))
        in if x = len then (data', len) else display_data_loop p len (x + 1) data'
      else (data, PPU_DISPLAY_WIDTH * PPU_DISPLAY_HEIGHT))"
  by pat_completeness auto
termination
  by (relation "measure (\<lambda>(p, len, x, data). PPU_DISPLAY_WIDTH * PPU_DISPLAY_HEIGHT - x)") auto

definition ppu_get_display_data ::
  "('c, 'w) GameBoy \<Rightarrow> (nat \<Rightarrow> u32) \<Rightarrow> nat \<Rightarrow> (nat \<Rightarrow> u32) \<times> nat" where
  "ppu_get_display_data gb data len = display_data_loop (ppu gb) len 0 data"

text \<open>
  The two map exports are three nested loops with a \<open>return\<close> in the innermost one.
  Each loop is a function; an inner loop yields \<open>Some n\<close> when the routine has
  returned \<open>n\<close> from inside it and \<open>None\<close> when it ran to its end.
\<close>

function background_pixels ::
  "('c, 'w) PPU \<Rightarrow> nat \<Rightarrow> nat \<Rightarrow> nat \<Rightarrow> nat \<Rightarrow> nat \<Rightarrow> (nat \<Rightarrow> u32)
     \<Rightarrow> (nat \<Rightarrow> u32) \<times> nat option" where
  "background_pixels p len tile row y pixel data =
     (if pixel < PPU_PIXELS_PER_TILE_ROW then
        let x = (tile mod PPU_BG_WIDTH_IN_TILES) * PPU_PIXELS_PER_TILE_ROW + pixel;
            tile_id = unat (vram p (PPU_BACKGROUND1_START + tile));
            tile_id = (if lcdc p AND LCDC_BG_WINDOW_MODE_BIT \<noteq> 0 then tile_id
                       else tile_id + 256 * (if tile_id < 128 then 1 else 0));
            data' = data(x + y * PPU_BG_WIDTH_IN_PIXELS := ucast (tile_buffer p tile_id row pixel))
        in if x + y * PPU_BG_WIDTH_IN_PIXELS = len then (data', Some len)
           else background_pixels p len tile row y (pixel + 1) data'
      else (data, None))"
  by pat_completeness auto
termination
  by (relation "measure (\<lambda>(p, len, tile, row, y, pixel, data). PPU_PIXELS_PER_TILE_ROW - pixel)")
     auto

function background_rows ::
  "('c, 'w) PPU \<Rightarrow> nat \<Rightarrow> nat \<Rightarrow> nat \<Rightarrow> (nat \<Rightarrow> u32) \<Rightarrow> (nat \<Rightarrow> u32) \<times> nat option" where
  "background_rows p len tile row data =
     (if row < PPU_ROWS_PER_TILE then
        let y = tile div PPU_BG_WIDTH_IN_TILES * PPU_PIXELS_PER_TILE_ROW + row
        in case background_pixels p len tile row y 0 data of
             (data', Some n) \<Rightarrow> (data', Some n)
           | (data', None) \<Rightarrow> background_rows p len tile (row + 1) data'
      else (data, None))"
  by pat_completeness auto
termination
  by (relation "measure (\<lambda>(p, len, tile, row, data). PPU_ROWS_PER_TILE - row)") auto

function background_tiles ::
  "('c, 'w) PPU \<Rightarrow> nat \<Rightarrow> nat \<Rightarrow> (nat \<Rightarrow> u32) \<Rightarrow> (nat \<Rightarrow> u32) \<times> nat" where
  "background_tiles p len tile data =
     (if tile < PPU_BG_TILE_COUNT then
        case background_rows p len tile 0 data of
          (data', Some n) \<Rightarrow> (data', n)
        | (data', None) \<Rightarrow> background_tiles p len (tile + 1) data'
      else (data, PPU_BG_WIDTH_IN_PIXELS * PPU_BG_HEIGHT_IN_PIXELS))"
  by pat_completeness auto
termination
  by (relation "measure (\<lambda>(p, len, tile, data). PPU_BG_TILE_COUNT - tile)") auto

definition ppu_get_background_data ::
  "('c, 'w) GameBoy \<Rightarrow> (nat \<Rightarrow> u32) \<Rightarrow> nat \<Rightarrow> (nat \<Rightarrow> u32) \<times> nat" where
  "ppu_get_background_data gb data len = background_tiles (ppu gb) len 0 data"

function tileset_pixels ::
  "('c, 'w) PPU \<Rightarrow> nat \<Rightarrow> nat \<Rightarrow> nat \<Rightarrow> nat \<Rightarrow> nat \<Rightarrow> (nat \<Rightarrow> u32)
     \<Rightarrow> (nat \<Rightarrow> u32) \<times> nat option" where
  "tileset_pixels p len tile row y pixel data =
     (if pixel < PPU_PIXELS_PER_TILE_ROW then
        let x = (tile mod PPU_TS_WIDTH_IN_TILES) * PPU_PIXELS_PER_TILE_ROW + pixel;
            data' = data(x + y * PPU_TS_WIDTH_IN_PIXELS := ucast (tile_buffer p tile row pixel))
        in if x + y * PPU_TS_WIDTH_IN_PIXELS = len then (data', Some len)
           else tileset_pixels p len tile row y (pixel + 1) data'
      else (data, None))"
  by pat_completeness auto
termination
  by (relation "measure (\<lambda>(p, len, tile, row, y, pixel, data). PPU_PIXELS_PER_TILE_ROW - pixel)")
     auto

function tileset_rows ::
  "('c, 'w) PPU \<Rightarrow> nat \<Rightarrow> nat \<Rightarrow> nat \<Rightarrow> (nat \<Rightarrow> u32) \<Rightarrow> (nat \<Rightarrow> u32) \<times> nat option" where
  "tileset_rows p len tile row data =
     (if row < PPU_ROWS_PER_TILE then
        let y = tile div PPU_TS_WIDTH_IN_TILES * PPU_PIXELS_PER_TILE_ROW + row
        in case tileset_pixels p len tile row y 0 data of
             (data', Some n) \<Rightarrow> (data', Some n)
           | (data', None) \<Rightarrow> tileset_rows p len tile (row + 1) data'
      else (data, None))"
  by pat_completeness auto
termination
  by (relation "measure (\<lambda>(p, len, tile, row, data). PPU_ROWS_PER_TILE - row)") auto

function tileset_tiles ::
  "('c, 'w) PPU \<Rightarrow> nat \<Rightarrow> nat \<Rightarrow> (nat \<Rightarrow> u32) \<Rightarrow> (nat \<Rightarrow> u32) \<times> nat" where
  "tileset_tiles p len tile data =
     (if tile < PPU_TS_TILE_COUNT then
        case tileset_rows p len tile 0 data of
          (data', Some n) \<Rightarrow> (data', n)
        | (data', None) \<Rightarrow> tileset_tiles p len (tile + 1) data'
      else (data, PPU_TS_WIDTH_IN_PIXELS * PPU_TS_HEIGHT_IN_PIXELS))"
  by pat_completeness auto
termination
  by (relation "measure (\<lambda>(p, len, tile, data). PPU_TS_TILE_COUNT - tile)") auto

definition ppu_get_tileset_data ::
  "('c, 'w) GameBoy \<Rightarrow> (nat \<Rightarrow> u32) \<Rightarrow> nat \<Rightarrow> (nat \<Rightarrow> u32) \<times> nat" where
  "ppu_get_tileset_data gb data len = tileset_tiles (ppu gb) len 0 data"

section \<open>Concrete states\<close>

text \<open>
  A controller whose memory is all zero, and the machine right after
  \<open>ppu_initialize\<close> on it with no interrupt pending. The counters are a 64-bit and
  an 8-bit word here.
\<close>

definition zero_ppu :: "(64 word, 8 word) PPU" where
  "zero_ppu =
     \<lparr>lcdc = 0, stat = 0, scy = 0, scx = 0, ly = 0, lyc = 0, bgp = 0, obp0 = 0, obp1 = 0,
      wy = 0, wx = 0, window_internal_line = 0, count = 0,
      vram = (\<lambda>_. 0), oam = (\<lambda>_. 0), tile_buffer = (\<lambda>_ _ _. 0),
      display_buffer = (\<lambda>_. 0)\<rparr>"

definition power_on :: "(64 word, 8 word) GameBoy" where
  "power_on = \<lparr>ppu = ppu_initialize zero_ppu False, interrupt_controller = \<lparr>flags = 0\<rparr>\<rparr>"

text \<open>
  The last dot of the HBLANK of scanline 143 with only the coincidence check enabled and
  the compare register at 144.
\<close>

definition coincidence_at_vblank :: "(64 word, 8 word) GameBoy" where
  "coincidence_at_vblank =
     power_on\<lparr>ppu := (ppu power_on)\<lparr>stat := 0x40, ly := 143, lyc := 144, count := 1\<rparr>\<rparr>"

text \<open>
  Three sprites on scanline 0, all 8 pixels high with no attribute bit set: object
  entries 0 and 1 at X = 20 showing tiles 1 and 2, entry 2 at X = 10 showing tile 3.
  Tile \<open>n\<close> of the cache is filled with colour index \<open>n\<close>, the object palette maps
  every index to itself, and only the sprite layer is enabled.
\<close>

definition tied_sprites :: "(64 word, 8 word) GameBoy" where
  "tied_sprites =
     power_on\<lparr>ppu := (ppu power_on)
       \<lparr>lcdc := 0x82, obp0 := 0xE4,
        oam := (\<lambda>_. 0)(0 := 16, 1 := 20, 2 := 1, 3 := 0,
                         4 := 16, 5 := 20, 6 := 2, 7 := 0,
                         8 := 16, 9 := 10, 10 := 3, 11 := 0),
        tile_buffer := (\<lambda>tile row pixel. if tile = 1 then 1 else if tile = 2 then 2
                                           else if tile = 3 then 3 else 0)\<rparr>\<rparr>"

text \<open>The machine after the byte pair \<open>0xFF, 0xFF\<close> has been written to the first row of tile 0.\<close>

definition tile0_threes :: "(64 word, 8 word) GameBoy" where
  "tile0_threes = ppu_write_vram (ppu_write_vram power_on 0x0000 0xFF) 0x0001 0xFF"

section \<open>Properties\<close>

lemmas ppu_h_defs =
  PPU_PIXELS_PER_TILE_ROW_def PPU_ROWS_PER_TILE_def PPU_DISPLAY_WIDTH_def
  PPU_DISPLAY_HEIGHT_def PPU_BG_WIDTH_IN_PIXELS_def PPU_BG_HEIGHT_IN_PIXELS_def
  PPU_TS_TILE_COUNT_def PPU_TS_WIDTH_IN_PIXELS_def PPU_TS_HEIGHT_IN_PIXELS_def

subsection \<open>Bit facts about the status byte\<close>

lemma mode_codes_ok_dmg: "mode_codes_ok dmg_header"
  by (simp add: mode_codes_ok_def dmg_header_def)

lemma mode_bits_set:
  fixes x m :: u8
  assumes "m AND 0x03 = m"
  shows "((x AND NOT 0x03) OR m) AND 0x03 = m"
proof -
  have "((x AND NOT 0x03) OR m) AND 0x03 = ((x AND NOT 0x03) AND 0x03) OR (m AND 0x03)"
    by (simp only: bit.conj_disj_distrib2)
  also have "(x AND NOT 0x03) AND 0x03 = 0"
    by (simp add: word_bw_assocs)
  finally show ?thesis using assms by simp
qed

lemma mode_bits_other:
  fixes x m b :: u8
  assumes "m AND 0x03 = m" and "0x03 AND b = 0"
  shows "((x AND NOT 0x03) OR m) AND b = x AND b"
proof -
  have "m AND b = (m AND 0x03) AND b" using assms(1) by simp
  also have "\<dots> = m AND (0x03 AND b)" by (simp only: and.assoc)
  finally have mb: "m AND b = 0" using assms(2) by simp
  have "b = (0x03 AND b) OR (NOT 0x03 AND b)"
    by (simp only: bit.conj_disj_distrib2 [symmetric]) simp
  then have nb: "NOT 0x03 AND b = b" using assms(2) by simp
  have "((x AND NOT 0x03) OR m) AND b = ((x AND NOT 0x03) AND b) OR (m AND b)"
    by (simp only: bit.conj_disj_distrib2)
  also have "(x AND NOT 0x03) AND b = x AND (NOT 0x03 AND b)" by (simp only: and.assoc)
  finally show ?thesis using mb nb by simp
qed

subsection \<open>What the line renderer leaves alone\<close>

lemma display_update_frame:
  "stat (if c then p\<lparr>display_buffer := db\<rparr> else p) = stat p"
  "lcdc (if c then p\<lparr>display_buffer := db\<rparr> else p) = lcdc p"
  "count (if c then p\<lparr>display_buffer := db\<rparr> else p) = count p"
  "scx (if c then p\<lparr>display_buffer := db\<rparr> else p) = scx p"
  "stat (if c then p\<lparr>display_buffer := db, window_internal_line := w\<rparr> else p) = stat p"
  "lcdc (if c then p\<lparr>display_buffer := db, window_internal_line := w\<rparr> else p) = lcdc p"
  "count (if c then p\<lparr>display_buffer := db, window_internal_line := w\<rparr> else p) = count p"
  "scx (if c then p\<lparr>display_buffer := db, window_internal_line := w\<rparr> else p) = scx p"
  by simp_all

lemma draw_line_background_frame:
  "stat (ppu_draw_line_background p) = stat p" "lcdc (ppu_draw_line_background p) = lcdc p"
  "count (ppu_draw_line_background p) = count p" "scx (ppu_draw_line_background p) = scx p"
  unfolding ppu_draw_line_background_def Let_def by (rule display_update_frame)+

lemma draw_line_window_frame:
  "stat (ppu_draw_line_window p) = stat p" "lcdc (ppu_draw_line_window p) = lcdc p"
  "count (ppu_draw_line_window p) = count p" "scx (ppu_draw_line_window p) = scx p"
  unfolding ppu_draw_line_window_def Let_def by (rule display_update_frame)+

lemma draw_line_sprites_frame:
  "stat (ppu_draw_line_sprites p) = stat p" "lcdc (ppu_draw_line_sprites p) = lcdc p"
  "count (ppu_draw_line_sprites p) = count p" "scx (ppu_draw_line_sprites p) = scx p"
  unfolding ppu_draw_line_sprites_def Let_def by (rule display_update_frame)+

lemma ppu_draw_line_frame:
  "stat (ppu (ppu_draw_line gb)) = stat (ppu gb)" "lcdc (ppu (ppu_draw_line gb)) = lcdc (ppu gb)"
  "count (ppu (ppu_draw_line gb)) = count (ppu gb)" "scx (ppu (ppu_draw_line gb)) = scx (ppu gb)"
  "interrupt_controller (ppu_draw_line gb) = interrupt_controller gb"
  by (simp_all add: ppu_draw_line_def draw_line_background_frame draw_line_window_frame
        draw_line_sprites_frame)

subsection \<open>The early interrupt at the end of the data transfer\<close>

lemma ppu_cycle_count_one:
  assumes "lcdc (ppu gb) AND LCDC_LCD_ENABLE_BIT \<noteq> 0"
    and "stat (ppu gb) AND STAT_MODE_BITS = GRAPHICS_MODE_DATA_TRANSFER h"
    and "stat (ppu gb) AND STAT_HBLANK_CHECK_ENABLE \<noteq> 0"
    and "count (ppu gb) - 1 = 1"
  shows "ppu_cycle h gb =
           gb\<lparr>ppu := (ppu gb)\<lparr>count := 1\<rparr>,
              interrupt_controller := (interrupt_controller gb)
                \<lparr>flags := flags (interrupt_controller gb) OR LCD_STAT_INTERRUPT_BIT h\<rparr>\<rparr>"
  using assms by (simp add: ppu_cycle_def Let_def)

lemma ppu_cycle_data_transfer_end:
  assumes "mode_codes_ok h"
    and "lcdc (ppu gb) AND LCDC_LCD_ENABLE_BIT \<noteq> 0"
    and "stat (ppu gb) AND STAT_MODE_BITS = GRAPHICS_MODE_DATA_TRANSFER h"
    and "count (ppu gb) = 1"
  shows "ppu_cycle h gb
           = ppu_hblank_enter h (ppu_draw_line (gb\<lparr>ppu := (ppu gb)\<lparr>count := 0\<rparr>\<rparr>))"
proof -
  have "GRAPHICS_MODE_DATA_TRANSFER h \<noteq> GRAPHICS_MODE_HBLANK h"
    "GRAPHICS_MODE_DATA_TRANSFER h \<noteq> GRAPHICS_MODE_VBLANK h"
    "GRAPHICS_MODE_DATA_TRANSFER h \<noteq> GRAPHICS_MODE_OAM_SEARCH h"
    using assms(1) unfolding mode_codes_ok_def by auto
  then show ?thesis using assms(2-4) by (simp add: ppu_cycle_def Let_def)
qed

text \<open>
  Claim C1. A call of \<open>ppu_cycle\<close> with the LCD enabled, the mode bits at
  \<open>GRAPHICS_MODE_DATA_TRANSFER\<close> and the hblank check enabled, whose decrement brings
  the counter to 1, ORs the LCD-status bit into the interrupt flags and returns with
  the mode bits still at \<open>GRAPHICS_MODE_DATA_TRANSFER\<close> and the counter at 1. The
  mode bits read \<open>GRAPHICS_MODE_HBLANK\<close> only after the call that follows.
\<close>

theorem ppu_cycle_early_hblank_interrupt:
  assumes "lcdc (ppu gb) AND LCDC_LCD_ENABLE_BIT \<noteq> 0"
    and "stat (ppu gb) AND STAT_MODE_BITS = GRAPHICS_MODE_DATA_TRANSFER h"
    and "stat (ppu gb) AND STAT_HBLANK_CHECK_ENABLE \<noteq> 0"
    and "count (ppu gb) - 1 = 1"
  shows "flags (interrupt_controller (ppu_cycle h gb))
           = flags (interrupt_controller gb) OR LCD_STAT_INTERRUPT_BIT h
       \<and> flags (interrupt_controller (ppu_cycle h gb)) AND LCD_STAT_INTERRUPT_BIT h
           = LCD_STAT_INTERRUPT_BIT h
       \<and> stat (ppu (ppu_cycle h gb)) AND STAT_MODE_BITS = GRAPHICS_MODE_DATA_TRANSFER h
       \<and> count (ppu (ppu_cycle h gb)) = 1
       \<and> (mode_codes_ok h \<longrightarrow>
            stat (ppu (ppu_cycle h (ppu_cycle h gb))) AND STAT_MODE_BITS = GRAPHICS_MODE_HBLANK h)"
proof -
  note c = ppu_cycle_count_one [OF assms]
  have f: "flags (interrupt_controller (ppu_cycle h gb))
           = flags (interrupt_controller gb) OR LCD_STAT_INTERRUPT_BIT h"
    and s: "stat (ppu (ppu_cycle h gb)) = stat (ppu gb)"
    and l: "lcdc (ppu (ppu_cycle h gb)) = lcdc (ppu gb)"
    and n: "count (ppu (ppu_cycle h gb)) = 1"
    unfolding c by simp_all
  have next_call: "stat (ppu (ppu_cycle h (ppu_cycle h gb))) AND STAT_MODE_BITS
                     = GRAPHICS_MODE_HBLANK h" if ok: "mode_codes_ok h"
  proof -
    have hb: "GRAPHICS_MODE_HBLANK h AND 0x03 = GRAPHICS_MODE_HBLANK h"
      using ok unfolding mode_codes_ok_def by simp
    have "ppu_cycle h (ppu_cycle h gb) = ppu_hblank_enter h
            (ppu_draw_line ((ppu_cycle h gb)\<lparr>ppu := (ppu (ppu_cycle h gb))\<lparr>count := 0\<rparr>\<rparr>))"
      using assms(1,2) by (intro ppu_cycle_data_transfer_end [OF ok]) (simp_all add: s l n)
    then have st: "stat (ppu (ppu_cycle h (ppu_cycle h gb)))
                     = (stat (ppu (ppu_cycle h gb)) AND NOT 0x03) OR GRAPHICS_MODE_HBLANK h"
      by (simp add: ppu_hblank_enter_def ppu_draw_line_frame)
    show ?thesis unfolding st STAT_MODE_BITS_def by (rule mode_bits_set [OF hb])
  qed
  show ?thesis using assms(2) next_call by (simp add: f s n)
qed

theorem ppu_cycle_early_hblank_interrupt_witness:
  "lcdc (ppu (power_on\<lparr>ppu := (ppu power_on)\<lparr>stat := 0x0B, count := 2\<rparr>\<rparr>))
     AND LCDC_LCD_ENABLE_BIT \<noteq> 0
   \<and> flags (interrupt_controller (ppu_cycle dmg_header
         (power_on\<lparr>ppu := (ppu power_on)\<lparr>stat := 0x0B, count := 2\<rparr>\<rparr>))) = 0x02
   \<and> stat (ppu (ppu_cycle dmg_header
         (power_on\<lparr>ppu := (ppu power_on)\<lparr>stat := 0x0B, count := 2\<rparr>\<rparr>))) AND STAT_MODE_BITS = 3
   \<and> stat (ppu (ppu_cycle dmg_header (ppu_cycle dmg_header
         (power_on\<lparr>ppu := (ppu power_on)\<lparr>stat := 0x0B, count := 2\<rparr>\<rparr>)))) AND STAT_MODE_BITS = 0"
proof -
  let ?gb = "power_on\<lparr>ppu := (ppu power_on)\<lparr>stat := 0x0B, count := 2\<rparr>\<rparr>"
  have ok: "mode_codes_ok dmg_header"
    by (simp add: mode_codes_ok_def dmg_header_def)
  have p: "lcdc (ppu ?gb) AND LCDC_LCD_ENABLE_BIT \<noteq> 0"
    "stat (ppu ?gb) AND STAT_MODE_BITS = GRAPHICS_MODE_DATA_TRANSFER dmg_header"
    "stat (ppu ?gb) AND STAT_HBLANK_CHECK_ENABLE \<noteq> 0"
    "count (ppu ?gb) - 1 = 1"
    by (simp_all add: power_on_def ppu_initialize_def dmg_header_def)
  have q: "flags (interrupt_controller ?gb) = 0"
    "GRAPHICS_MODE_DATA_TRANSFER dmg_header = 3" "GRAPHICS_MODE_HBLANK dmg_header = 0"
    "LCD_STAT_INTERRUPT_BIT dmg_header = 0x02"
    by (simp_all add: power_on_def dmg_header_def)
  from ppu_cycle_early_hblank_interrupt [OF p] ok p(1) show ?thesis
    unfolding q by simp
qed

subsection \<open>Register writes\<close>

text \<open>
  Claim C3. Whatever the state before, writing a value whose LCD-enable bit is clear
  to the control register sets the scanline to 0, clears the two mode bits of the
  status byte, leaves its other six bits as they were, and sets the dot counter to 115.
\<close>

theorem ppu_write_lcdc_disable:
  assumes "v AND LCDC_LCD_ENABLE_BIT = 0"
  shows "ly (ppu (ppu_write_lcdc gb v)) = 0
       \<and> stat (ppu (ppu_write_lcdc gb v)) AND STAT_MODE_BITS = 0
       \<and> stat (ppu (ppu_write_lcdc gb v)) AND 0xFC = stat (ppu gb) AND 0xFC
       \<and> count (ppu (ppu_write_lcdc gb v)) = 115"
proof -
  have s: "stat (ppu (ppu_write_lcdc gb v)) = stat (ppu gb) AND 0xFC"
    using assms by (simp add: ppu_write_lcdc_def)
  have m: "(x AND 0xFC) AND 0x03 = 0" for x :: u8
    by (simp add: word_bw_assocs)
  show ?thesis using assms
    by (simp add: s m) (simp add: ppu_write_lcdc_def)
qed

theorem ppu_write_lcdc_disable_witness:
  "(0x11 :: u8) AND LCDC_LCD_ENABLE_BIT = 0
   \<and> ly (ppu (ppu_write_lcdc
        (power_on\<lparr>ppu := (ppu power_on)\<lparr>ly := 77, stat := 0x4B, count := 9\<rparr>\<rparr>) 0x11)) = 0
   \<and> stat (ppu (ppu_write_lcdc
        (power_on\<lparr>ppu := (ppu power_on)\<lparr>ly := 77, stat := 0x4B, count := 9\<rparr>\<rparr>) 0x11)) = 0x48
   \<and> unat (count (ppu (ppu_write_lcdc
        (power_on\<lparr>ppu := (ppu power_on)\<lparr>ly := 77, stat := 0x4B, count := 9\<rparr>\<rparr>) 0x11))) = 115"
proof -
  have h: "(0x11 :: u8) AND LCDC_LCD_ENABLE_BIT = 0" by simp
  show ?thesis
    using ppu_write_lcdc_disable [OF h,
        of "power_on\<lparr>ppu := (ppu power_on)\<lparr>ly := 77, stat := 0x4B, count := 9\<rparr>\<rparr>"]
    by (simp add: ppu_write_lcdc_def power_on_def)
qed

text \<open>
  The status write replaces the bits of \<open>STAT_WRITE_BITS\<close> = \<open>0x7C\<close>, that is bits
  2 to 6, by those of the written value and keeps bits 0, 1 and 7. Bit 2 is
  \<open>STAT_LY_LYC_COMPARISON_SIGNAL\<close>.
\<close>

lemma ppu_write_stat_bits:
  "stat (ppu (ppu_write_stat gb v)) AND STAT_WRITE_BITS = v AND STAT_WRITE_BITS"
  "stat (ppu (ppu_write_stat gb v)) AND STAT_MODE_BITS = stat (ppu gb) AND STAT_MODE_BITS"
  "stat (ppu (ppu_write_stat gb v)) AND STAT_LY_LYC_COMPARISON_SIGNAL
     = v AND STAT_LY_LYC_COMPARISON_SIGNAL"
  by (simp_all add: ppu_write_stat_def word_bw_assocs bit.conj_disj_distrib2)

text \<open>
  Claim C6 says that a write to the status register leaves the coincidence flag as it
  was. With the flag set (status \<open>0x04\<close>), writing \<open>0x00\<close> clears it.
\<close>

theorem ppu_write_stat_clobbers_coincidence_flag:
  "stat (ppu (power_on\<lparr>ppu := (ppu power_on)\<lparr>stat := 0x04\<rparr>\<rparr>))
      AND STAT_LY_LYC_COMPARISON_SIGNAL = 0x04
   \<and> stat (ppu (ppu_write_stat (power_on\<lparr>ppu := (ppu power_on)\<lparr>stat := 0x04\<rparr>\<rparr>) 0x00))
      AND STAT_LY_LYC_COMPARISON_SIGNAL = 0"
  by (simp add: ppu_write_stat_def)

subsection \<open>Object memory\<close>

lemma ppu_write_oam_dropped:
  "stat (ppu gb) AND STAT_MODE_BITS = GRAPHICS_MODE_OAM_SEARCH h
     \<or> stat (ppu gb) AND STAT_MODE_BITS = GRAPHICS_MODE_DATA_TRANSFER h
   \<Longrightarrow> ppu_write_oam h gb address v = gb"
  unfolding ppu_write_oam_def by (elim disjE) simp_all

lemma ppu_write_oam_stored:
  assumes "mode_codes_ok h"
    and "stat (ppu gb) AND STAT_MODE_BITS = GRAPHICS_MODE_HBLANK h
           \<or> stat (ppu gb) AND STAT_MODE_BITS = GRAPHICS_MODE_VBLANK h"
  shows "ppu_write_oam h gb address v
           = gb\<lparr>ppu := (ppu gb)\<lparr>oam := (oam (ppu gb))(unat address := v)\<rparr>\<rparr>"
proof -
  have "stat (ppu gb) AND STAT_MODE_BITS \<noteq> GRAPHICS_MODE_DATA_TRANSFER h"
    and "stat (ppu gb) AND STAT_MODE_BITS \<noteq> GRAPHICS_MODE_OAM_SEARCH h"
    using assms unfolding mode_codes_ok_def by auto
  then show ?thesis unfolding ppu_write_oam_def by simp
qed

text \<open>
  Claim C7. For every address and value: while the mode is \<open>GRAPHICS_MODE_OAM_SEARCH\<close>
  or \<open>GRAPHICS_MODE_DATA_TRANSFER\<close> an object-memory write returns the machine
  unchanged; while the mode is \<open>GRAPHICS_MODE_HBLANK\<close> or \<open>GRAPHICS_MODE_VBLANK\<close> it
  stores the value at the address and changes nothing else, so that a read of the
  address gives the value back; a read returns the stored byte whatever the mode.
\<close>

theorem ppu_write_oam_gated:
  assumes "mode_codes_ok h"
  shows "(stat (ppu gb) AND STAT_MODE_BITS = GRAPHICS_MODE_OAM_SEARCH h
            \<or> stat (ppu gb) AND STAT_MODE_BITS = GRAPHICS_MODE_DATA_TRANSFER h
          \<longrightarrow> ppu_write_oam h gb address v = gb)
       \<and> (stat (ppu gb) AND STAT_MODE_BITS = GRAPHICS_MODE_HBLANK h
            \<or> stat (ppu gb) AND STAT_MODE_BITS = GRAPHICS_MODE_VBLANK h
          \<longrightarrow> ppu_write_oam h gb address v
                = gb\<lparr>ppu := (ppu gb)\<lparr>oam := (oam (ppu gb))(unat address := v)\<rparr>\<rparr>
              \<and> ppu_read_oam (ppu_write_oam h gb address v) address = v)
       \<and> ppu_read_oam gb address = oam (ppu gb) (unat address)"
proof (intro conjI impI)
  assume "stat (ppu gb) AND STAT_MODE_BITS = GRAPHICS_MODE_OAM_SEARCH h
            \<or> stat (ppu gb) AND STAT_MODE_BITS = GRAPHICS_MODE_DATA_TRANSFER h"
  then show "ppu_write_oam h gb address v = gb" by (rule ppu_write_oam_dropped)
next
  assume m: "stat (ppu gb) AND STAT_MODE_BITS = GRAPHICS_MODE_HBLANK h
            \<or> stat (ppu gb) AND STAT_MODE_BITS = GRAPHICS_MODE_VBLANK h"
  show "ppu_write_oam h gb address v
          = gb\<lparr>ppu := (ppu gb)\<lparr>oam := (oam (ppu gb))(unat address := v)\<rparr>\<rparr>"
    by (rule ppu_write_oam_stored [OF assms m])
  then show "ppu_read_oam (ppu_write_oam h gb address v) address = v"
    by (simp add: ppu_read_oam_def)
next
  show "ppu_read_oam gb address = oam (ppu gb) (unat address)"
    by (simp add: ppu_read_oam_def)
qed

theorem ppu_write_oam_gated_witness:
  "mode_codes_ok dmg_header
   \<and> ppu_write_oam dmg_header (power_on\<lparr>ppu := (ppu power_on)\<lparr>stat := 0x02\<rparr>\<rparr>) 5 0x77
        = power_on\<lparr>ppu := (ppu power_on)\<lparr>stat := 0x02\<rparr>\<rparr>
   \<and> ppu_read_oam (ppu_write_oam dmg_header
        (power_on\<lparr>ppu := (ppu power_on)\<lparr>stat := 0x02\<rparr>\<rparr>) 5 0x77) 5 = 0
   \<and> ppu_read_oam (ppu_write_oam dmg_header
        (power_on\<lparr>ppu := (ppu power_on)\<lparr>stat := 0x01\<rparr>\<rparr>) 5 0x77) 5 = 0x77"
proof -
  let ?search = "power_on\<lparr>ppu := (ppu power_on)\<lparr>stat := 0x02\<rparr>\<rparr>"
  let ?vblank = "power_on\<lparr>ppu := (ppu power_on)\<lparr>stat := 0x01\<rparr>\<rparr>"
  have h: "mode_codes_ok dmg_header"
    by (simp add: mode_codes_ok_def dmg_header_def)
  have a: "stat (ppu ?search) AND STAT_MODE_BITS = GRAPHICS_MODE_OAM_SEARCH dmg_header
           \<or> stat (ppu ?search) AND STAT_MODE_BITS = GRAPHICS_MODE_DATA_TRANSFER dmg_header"
    and b: "stat (ppu ?vblank) AND STAT_MODE_BITS = GRAPHICS_MODE_HBLANK dmg_header
           \<or> stat (ppu ?vblank) AND STAT_MODE_BITS = GRAPHICS_MODE_VBLANK dmg_header"
    by (simp_all add: dmg_header_def)
  have z: "ppu_read_oam ?search 5 = 0"
    by (simp add: ppu_read_oam_def power_on_def ppu_initialize_def zero_ppu_def)
  from ppu_write_oam_gated [OF h, of ?search 5 "0x77"] a
  have d: "ppu_write_oam dmg_header ?search 5 0x77 = ?search" by blast
  from ppu_write_oam_gated [OF h, of ?vblank 5 "0x77"] b
  have s: "ppu_read_oam (ppu_write_oam dmg_header ?vblank 5 0x77) 5 = 0x77" by blast
  have r: "ppu_read_oam (ppu_write_oam dmg_header ?search 5 0x77) 5 = 0"
    unfolding d by (rule z)
  from h d r s show ?thesis by (intro conjI)
qed

subsection \<open>Initialization\<close>

text \<open>
  Claim C8, as amended. Right after \<open>ppu_initialize\<close> the control register is
  \<open>0x91\<close>, the status register is 0 and the dot counter is 80.
\<close>

theorem ppu_initialize_registers:
  "lcdc (ppu_initialize p skip_bootrom) = 0x91
   \<and> stat (ppu_initialize p skip_bootrom) = 0
   \<and> count (ppu_initialize p skip_bootrom) = 80"
  by (simp add: ppu_initialize_def)

text \<open>
  The claim as stated gives the counter as \<open>PPU_OAM_SEARCH_LENGTH\<close>, 21 dots; on the
  zeroed controller it is not.
\<close>

theorem ppu_initialize_count_not_21:
  "\<not> (lcdc (ppu_initialize zero_ppu False) = 0x91
      \<and> stat (ppu_initialize zero_ppu False) = 0
      \<and> count (ppu_initialize zero_ppu False) = of_nat PPU_OAM_SEARCH_LENGTH)"
  by (simp add: ppu_initialize_def zero_ppu_def)

subsection \<open>Interrupts at mode entry\<close>

lemma ppu_vblank_enter_fields:
  assumes "GRAPHICS_MODE_VBLANK h AND 0x03 = GRAPHICS_MODE_VBLANK h"
  shows "flags (interrupt_controller (ppu_vblank_enter h gb))
           = (flags (interrupt_controller gb) OR VBLANK_INTERRUPT_BIT h)
             OR (if stat (ppu gb) AND STAT_VBLANK_CHECK_ENABLE \<noteq> 0
                    \<or> stat (ppu gb) AND STAT_OAM_SEARCH_CHECK_ENABLE \<noteq> 0
                 then LCD_STAT_INTERRUPT_BIT h else 0)"
    and "window_internal_line (ppu (ppu_vblank_enter h gb)) = 0"
    and "stat (ppu (ppu_vblank_enter h gb))
           = (stat (ppu gb) AND NOT 0x03) OR GRAPHICS_MODE_VBLANK h"
    and "ly (ppu (ppu_vblank_enter h gb)) = ly (ppu gb)"
    and "lyc (ppu (ppu_vblank_enter h gb)) = lyc (ppu gb)"
proof -
  have b: "((stat (ppu gb) AND NOT 0x03) OR GRAPHICS_MODE_VBLANK h) AND 0x10
             = stat (ppu gb) AND 0x10"
    "((stat (ppu gb) AND NOT 0x03) OR GRAPHICS_MODE_VBLANK h) AND 0x20
             = stat (ppu gb) AND 0x20"
    by (rule mode_bits_other [OF assms], simp)+
  show "flags (interrupt_controller (ppu_vblank_enter h gb))
           = (flags (interrupt_controller gb) OR VBLANK_INTERRUPT_BIT h)
             OR (if stat (ppu gb) AND STAT_VBLANK_CHECK_ENABLE \<noteq> 0
                    \<or> stat (ppu gb) AND STAT_OAM_SEARCH_CHECK_ENABLE \<noteq> 0
                 then LCD_STAT_INTERRUPT_BIT h else 0)"
    unfolding ppu_vblank_enter_def Let_def STAT_MODE_BITS_def STAT_VBLANK_CHECK_ENABLE_def
      STAT_OAM_SEARCH_CHECK_ENABLE_def b by simp
  show "window_internal_line (ppu (ppu_vblank_enter h gb)) = 0"
    "stat (ppu (ppu_vblank_enter h gb))
           = (stat (ppu gb) AND NOT 0x03) OR GRAPHICS_MODE_VBLANK h"
    "ly (ppu (ppu_vblank_enter h gb)) = ly (ppu gb)"
    "lyc (ppu (ppu_vblank_enter h gb)) = lyc (ppu gb)"
    by (simp_all add: ppu_vblank_enter_def Let_def)
qed

lemma ppu_oam_search_enter_fields:
  assumes "GRAPHICS_MODE_OAM_SEARCH h AND 0x03 = GRAPHICS_MODE_OAM_SEARCH h"
  shows "flags (interrupt_controller (ppu_oam_search_enter h gb))
           = flags (interrupt_controller gb)
             OR (if stat (ppu gb) AND STAT_OAM_SEARCH_CHECK_ENABLE \<noteq> 0
                 then LCD_STAT_INTERRUPT_BIT h else 0)"
    and "stat (ppu (ppu_oam_search_enter h gb))
           = (stat (ppu gb) AND NOT 0x03) OR GRAPHICS_MODE_OAM_SEARCH h"
    and "ly (ppu (ppu_oam_search_enter h gb)) = ly (ppu gb)"
    and "lyc (ppu (ppu_oam_search_enter h gb)) = lyc (ppu gb)"
proof -
  have b: "((stat (ppu gb) AND NOT 0x03) OR GRAPHICS_MODE_OAM_SEARCH h) AND 0x20
             = stat (ppu gb) AND 0x20"
    by (rule mode_bits_other [OF assms], simp)
  show "flags (interrupt_controller (ppu_oam_search_enter h gb))
           = flags (interrupt_controller gb)
             OR (if stat (ppu gb) AND STAT_OAM_SEARCH_CHECK_ENABLE \<noteq> 0
                 then LCD_STAT_INTERRUPT_BIT h else 0)"
    unfolding ppu_oam_search_enter_def Let_def STAT_MODE_BITS_def
      STAT_OAM_SEARCH_CHECK_ENABLE_def b by simp
  show "stat (ppu (ppu_oam_search_enter h gb))
           = (stat (ppu gb) AND NOT 0x03) OR GRAPHICS_MODE_OAM_SEARCH h"
    "ly (ppu (ppu_oam_search_enter h gb)) = ly (ppu gb)"
    "lyc (ppu (ppu_oam_search_enter h gb)) = lyc (ppu gb)"
    by (simp_all add: ppu_oam_search_enter_def Let_def)
qed

lemma ppu_compare_ly_lyc_fields:
  "flags (interrupt_controller (ppu_compare_ly_lyc h gb))
     = flags (interrupt_controller gb)
       OR (if ly (ppu gb) = lyc (ppu gb) \<and> stat (ppu gb) AND STAT_LY_LYC_COMPARSION_ENABLE \<noteq> 0
           then LCD_STAT_INTERRUPT_BIT h else 0)"
  "stat (ppu (ppu_compare_ly_lyc h gb)) AND 0x03 = stat (ppu gb) AND 0x03"
  "window_internal_line (ppu (ppu_compare_ly_lyc h gb)) = window_internal_line (ppu gb)"
  "ly (ppu (ppu_compare_ly_lyc h gb)) = ly (ppu gb)"
  by (simp_all add: ppu_compare_ly_lyc_def Let_def word_bw_assocs bit.conj_disj_distrib2)

lemma ppu_cycle_hblank_end:
  assumes "lcdc (ppu gb) AND LCDC_LCD_ENABLE_BIT \<noteq> 0"
    and "count (ppu gb) - 1 = 0"
    and "stat (ppu gb) AND STAT_MODE_BITS = GRAPHICS_MODE_HBLANK h"
  shows "ppu_cycle h gb =
           ppu_compare_ly_lyc h
             (if ly (ppu gb) + 1 < 144
              then ppu_oam_search_enter h (gb\<lparr>ppu := (ppu gb)\<lparr>count := 0, ly := ly (ppu gb) + 1\<rparr>\<rparr>)
              else ppu_vblank_enter h (gb\<lparr>ppu := (ppu gb)\<lparr>count := 0, ly := ly (ppu gb) + 1\<rparr>\<rparr>))"
  using assms by (simp add: ppu_cycle_def Let_def)

lemma ppu_cycle_vblank_end:
  assumes "mode_codes_ok h"
    and "lcdc (ppu gb) AND LCDC_LCD_ENABLE_BIT \<noteq> 0"
    and "count (ppu gb) - 1 = 0"
    and "stat (ppu gb) AND STAT_MODE_BITS = GRAPHICS_MODE_VBLANK h"
    and "ly (ppu gb) + 1 > 153"
  shows "ppu_cycle h gb =
           ppu_compare_ly_lyc h
             (ppu_oam_search_enter h (gb\<lparr>ppu := (ppu gb)\<lparr>count := 0, ly := 0\<rparr>\<rparr>))"
proof -
  have "GRAPHICS_MODE_VBLANK h \<noteq> GRAPHICS_MODE_HBLANK h"
    using assms(1) unfolding mode_codes_ok_def by auto
  then show ?thesis using assms(2-5) by (simp add: ppu_cycle_def Let_def)
qed


text \<open>
  Claim C2, as amended. Entering VBLANK (\<open>ppu_vblank_enter\<close>) ORs the vblank bit into
  the interrupt flags, ORs the LCD-status bit in exactly when the vblank check or the
  OAM-search check is enabled, and resets the window line counter; entering OAM_SEARCH
  (\<open>ppu_oam_search_enter\<close>) ORs the LCD-status bit in exactly when the OAM-search check
  is enabled. In the per-dot call that makes the transition (counter reaching 0 in
  HBLANK, or in VBLANK past scanline 153) the scanline comparison runs after the entry
  and ORs the LCD-status bit in as well when the new scanline equals the compare
  register and the coincidence check is enabled; the flags after the call are the flags
  before it with exactly these bits added.
\<close>

theorem ppu_cycle_mode_entry_interrupts:
  assumes ok: "mode_codes_ok h"
  shows
    "flags (interrupt_controller (ppu_vblank_enter h gb))
       = (flags (interrupt_controller gb) OR VBLANK_INTERRUPT_BIT h)
         OR (if stat (ppu gb) AND STAT_VBLANK_CHECK_ENABLE \<noteq> 0
                \<or> stat (ppu gb) AND STAT_OAM_SEARCH_CHECK_ENABLE \<noteq> 0
             then LCD_STAT_INTERRUPT_BIT h else 0)
     \<and> window_internal_line (ppu (ppu_vblank_enter h gb)) = 0
     \<and> flags (interrupt_controller (ppu_oam_search_enter h gb))
       = flags (interrupt_controller gb)
         OR (if stat (ppu gb) AND STAT_OAM_SEARCH_CHECK_ENABLE \<noteq> 0
             then LCD_STAT_INTERRUPT_BIT h else 0)
     \<and> (lcdc (ppu gb) AND LCDC_LCD_ENABLE_BIT \<noteq> 0 \<and> count (ppu gb) - 1 = 0
          \<and> stat (ppu gb) AND STAT_MODE_BITS = GRAPHICS_MODE_HBLANK h
          \<and> \<not> ly (ppu gb) + 1 < 144 \<longrightarrow>
          stat (ppu (ppu_cycle h gb)) AND STAT_MODE_BITS = GRAPHICS_MODE_VBLANK h
          \<and> window_internal_line (ppu (ppu_cycle h gb)) = 0
          \<and> flags (interrupt_controller (ppu_cycle h gb))
              = ((flags (interrupt_controller gb) OR VBLANK_INTERRUPT_BIT h)
                 OR (if stat (ppu gb) AND STAT_VBLANK_CHECK_ENABLE \<noteq> 0
                        \<or> stat (ppu gb) AND STAT_OAM_SEARCH_CHECK_ENABLE \<noteq> 0
                     then LCD_STAT_INTERRUPT_BIT h else 0))
                OR (if ly (ppu gb) + 1 = lyc (ppu gb)
                        \<and> stat (ppu gb) AND STAT_LY_LYC_COMPARSION_ENABLE \<noteq> 0
                    then LCD_STAT_INTERRUPT_BIT h else 0))
     \<and> (lcdc (ppu gb) AND LCDC_LCD_ENABLE_BIT \<noteq> 0 \<and> count (ppu gb) - 1 = 0
          \<and> stat (ppu gb) AND STAT_MODE_BITS = GRAPHICS_MODE_HBLANK h
          \<and> ly (ppu gb) + 1 < 144 \<longrightarrow>
          stat (ppu (ppu_cycle h gb)) AND STAT_MODE_BITS = GRAPHICS_MODE_OAM_SEARCH h
          \<and> flags (interrupt_controller (ppu_cycle h gb))
              = (flags (interrupt_controller gb)
                 OR (if stat (ppu gb) AND STAT_OAM_SEARCH_CHECK_ENABLE \<noteq> 0
                     then LCD_STAT_INTERRUPT_BIT h else 0))
                OR (if ly (ppu gb) + 1 = lyc (ppu gb)
                        \<and> stat (ppu gb) AND STAT_LY_LYC_COMPARSION_ENABLE \<noteq> 0
                    then LCD_STAT_INTERRUPT_BIT h else 0))
     \<and> (lcdc (ppu gb) AND LCDC_LCD_ENABLE_BIT \<noteq> 0 \<and> count (ppu gb) - 1 = 0
          \<and> stat (ppu gb) AND STAT_MODE_BITS = GRAPHICS_MODE_VBLANK h
          \<and> ly (ppu gb) + 1 > 153 \<longrightarrow>
          stat (ppu (ppu_cycle h gb)) AND STAT_MODE_BITS = GRAPHICS_MODE_OAM_SEARCH h
          \<and> ly (ppu (ppu_cycle h gb)) = 0
          \<and> flags (interrupt_controller (ppu_cycle h gb))
              = (flags (interrupt_controller gb)
                 OR (if stat (ppu gb) AND STAT_OAM_SEARCH_CHECK_ENABLE \<noteq> 0
                     then LCD_STAT_INTERRUPT_BIT h else 0))
                OR (if 0 = lyc (ppu gb)
                        \<and> stat (ppu gb) AND STAT_LY_LYC_COMPARSION_ENABLE \<noteq> 0
                    then LCD_STAT_INTERRUPT_BIT h else 0))"
proof -
  have vb: "GRAPHICS_MODE_VBLANK h AND 0x03 = GRAPHICS_MODE_VBLANK h"
    and os: "GRAPHICS_MODE_OAM_SEARCH h AND 0x03 = GRAPHICS_MODE_OAM_SEARCH h"
    using ok unfolding mode_codes_ok_def by simp_all
  note ve = ppu_vblank_enter_fields [OF vb]
  note oe = ppu_oam_search_enter_fields [OF os]
  have e40: "((x AND NOT 0x03) OR m) AND 0x40 = x AND 0x40" if "m AND 0x03 = m" for x m :: u8
    by (rule mode_bits_other [OF that]) simp
  have into_vblank:
    "stat (ppu (ppu_cycle h gb)) AND STAT_MODE_BITS = GRAPHICS_MODE_VBLANK h
     \<and> window_internal_line (ppu (ppu_cycle h gb)) = 0
     \<and> flags (interrupt_controller (ppu_cycle h gb))
         = ((flags (interrupt_controller gb) OR VBLANK_INTERRUPT_BIT h)
            OR (if stat (ppu gb) AND STAT_VBLANK_CHECK_ENABLE \<noteq> 0
                   \<or> stat (ppu gb) AND STAT_OAM_SEARCH_CHECK_ENABLE \<noteq> 0
                then LCD_STAT_INTERRUPT_BIT h else 0))
           OR (if ly (ppu gb) + 1 = lyc (ppu gb)
                   \<and> stat (ppu gb) AND STAT_LY_LYC_COMPARSION_ENABLE \<noteq> 0
               then LCD_STAT_INTERRUPT_BIT h else 0)"
    if a: "lcdc (ppu gb) AND LCDC_LCD_ENABLE_BIT \<noteq> 0" "count (ppu gb) - 1 = 0"
      "stat (ppu gb) AND STAT_MODE_BITS = GRAPHICS_MODE_HBLANK h" and b: "\<not> ly (ppu gb) + 1 < 144"
  proof -
    let ?g = "gb\<lparr>ppu := (ppu gb)\<lparr>count := 0, ly := ly (ppu gb) + 1\<rparr>\<rparr>"
    have c: "ppu_cycle h gb = ppu_compare_ly_lyc h (ppu_vblank_enter h ?g)"
      using ppu_cycle_hblank_end [OF a] b by simp
    show ?thesis
      unfolding c ppu_compare_ly_lyc_fields ve STAT_MODE_BITS_def STAT_LY_LYC_COMPARSION_ENABLE_def
        e40 [OF vb] mode_bits_set [OF vb]
      by simp
  qed
  have into_search_from_hblank:
    "stat (ppu (ppu_cycle h gb)) AND STAT_MODE_BITS = GRAPHICS_MODE_OAM_SEARCH h
     \<and> flags (interrupt_controller (ppu_cycle h gb))
         = (flags (interrupt_controller gb)
            OR (if stat (ppu gb) AND STAT_OAM_SEARCH_CHECK_ENABLE \<noteq> 0
                then LCD_STAT_INTERRUPT_BIT h else 0))
           OR (if ly (ppu gb) + 1 = lyc (ppu gb)
                   \<and> stat (ppu gb) AND STAT_LY_LYC_COMPARSION_ENABLE \<noteq> 0
               then LCD_STAT_INTERRUPT_BIT h else 0)"
    if a: "lcdc (ppu gb) AND LCDC_LCD_ENABLE_BIT \<noteq> 0" "count (ppu gb) - 1 = 0"
      "stat (ppu gb) AND STAT_MODE_BITS = GRAPHICS_MODE_HBLANK h" and b: "ly (ppu gb) + 1 < 144"
  proof -
    let ?g = "gb\<lparr>ppu := (ppu gb)\<lparr>count := 0, ly := ly (ppu gb) + 1\<rparr>\<rparr>"
    have c: "ppu_cycle h gb = ppu_compare_ly_lyc h (ppu_oam_search_enter h ?g)"
      using ppu_cycle_hblank_end [OF a] b by simp
    show ?thesis
      unfolding c ppu_compare_ly_lyc_fields oe STAT_MODE_BITS_def STAT_LY_LYC_COMPARSION_ENABLE_def
        e40 [OF os] mode_bits_set [OF os]
      by simp
  qed
  have into_search_from_vblank:
    "stat (ppu (ppu_cycle h gb)) AND STAT_MODE_BITS = GRAPHICS_MODE_OAM_SEARCH h
     \<and> ly (ppu (ppu_cycle h gb)) = 0
     \<and> flags (interrupt_controller (ppu_cycle h gb))
         = (flags (interrupt_controller gb)
            OR (if stat (ppu gb) AND STAT_OAM_SEARCH_CHECK_ENABLE \<noteq> 0
                then LCD_STAT_INTERRUPT_BIT h else 0))
           OR (if 0 = lyc (ppu gb)
                   \<and> stat (ppu gb) AND STAT_LY_LYC_COMPARSION_ENABLE \<noteq> 0
               then LCD_STAT_INTERRUPT_BIT h else 0)"
    if a: "lcdc (ppu gb) AND LCDC_LCD_ENABLE_BIT \<noteq> 0" "count (ppu gb) - 1 = 0"
      "stat (ppu gb) AND STAT_MODE_BITS = GRAPHICS_MODE_VBLANK h" "ly (ppu gb) + 1 > 153"
  proof -
    let ?g = "gb\<lparr>ppu := (ppu gb)\<lparr>count := 0, ly := 0\<rparr>\<rparr>"
    have c: "ppu_cycle h gb = ppu_compare_ly_lyc h (ppu_oam_search_enter h ?g)"
      by (rule ppu_cycle_vblank_end [OF ok a])
    show ?thesis
      unfolding c ppu_compare_ly_lyc_fields oe STAT_MODE_BITS_def STAT_LY_LYC_COMPARSION_ENABLE_def
        e40 [OF os] mode_bits_set [OF os]
      by simp
  qed
  show ?thesis
    using ve(1,2) [of gb] oe(1) [of gb] into_vblank into_search_from_hblank into_search_from_vblank
    by blast
qed


theorem ppu_cycle_mode_entry_interrupts_witness:
  "mode_codes_ok dmg_header
   \<and> flags (interrupt_controller (ppu_cycle dmg_header
        (power_on\<lparr>ppu := (ppu power_on)\<lparr>stat := 0x10, ly := 143, count := 1\<rparr>\<rparr>))) = 0x03
   \<and> window_internal_line (ppu (ppu_cycle dmg_header
        (power_on\<lparr>ppu := (ppu power_on)\<lparr>stat := 0x10, ly := 143, count := 1\<rparr>\<rparr>))) = 0
   \<and> stat (ppu (ppu_cycle dmg_header
        (power_on\<lparr>ppu := (ppu power_on)\<lparr>stat := 0x10, ly := 143, count := 1\<rparr>\<rparr>))) AND STAT_MODE_BITS = 1
   \<and> flags (interrupt_controller (ppu_cycle dmg_header
        (power_on\<lparr>ppu := (ppu power_on)\<lparr>stat := 0x20, ly := 10, count := 1\<rparr>\<rparr>))) = 0x02
   \<and> flags (interrupt_controller (ppu_cycle dmg_header
        (power_on\<lparr>ppu := (ppu power_on)\<lparr>stat := 0x01, ly := 153, lyc := 7, count := 1\<rparr>\<rparr>))) = 0
   \<and> ly (ppu (ppu_cycle dmg_header
        (power_on\<lparr>ppu := (ppu power_on)\<lparr>stat := 0x01, ly := 153, lyc := 7, count := 1\<rparr>\<rparr>))) = 0"
proof -
  let ?v = "power_on\<lparr>ppu := (ppu power_on)\<lparr>stat := 0x10, ly := 143, count := 1\<rparr>\<rparr>"
  let ?s = "power_on\<lparr>ppu := (ppu power_on)\<lparr>stat := 0x20, ly := 10, count := 1\<rparr>\<rparr>"
  let ?w = "power_on\<lparr>ppu := (ppu power_on)\<lparr>stat := 0x01, ly := 153, lyc := 7, count := 1\<rparr>\<rparr>"
  have ok: "mode_codes_ok dmg_header"
    by (simp add: mode_codes_ok_def dmg_header_def)
  have pv: "lcdc (ppu ?v) AND LCDC_LCD_ENABLE_BIT \<noteq> 0 \<and> count (ppu ?v) - 1 = 0
          \<and> stat (ppu ?v) AND STAT_MODE_BITS = GRAPHICS_MODE_HBLANK dmg_header
          \<and> \<not> ly (ppu ?v) + 1 < 144"
    and ps: "lcdc (ppu ?s) AND LCDC_LCD_ENABLE_BIT \<noteq> 0 \<and> count (ppu ?s) - 1 = 0
          \<and> stat (ppu ?s) AND STAT_MODE_BITS = GRAPHICS_MODE_HBLANK dmg_header
          \<and> ly (ppu ?s) + 1 < 144"
    and pw: "lcdc (ppu ?w) AND LCDC_LCD_ENABLE_BIT \<noteq> 0 \<and> count (ppu ?w) - 1 = 0
          \<and> stat (ppu ?w) AND STAT_MODE_BITS = GRAPHICS_MODE_VBLANK dmg_header
          \<and> ly (ppu ?w) + 1 > 153"
    by (simp_all add: power_on_def ppu_initialize_def dmg_header_def)
  have q: "flags (interrupt_controller ?v) = 0" "flags (interrupt_controller ?s) = 0"
    "flags (interrupt_controller ?w) = 0"
    "stat (ppu ?v) = 0x10" "stat (ppu ?s) = 0x20" "stat (ppu ?w) = 0x01"
    "ly (ppu ?v) = 143" "ly (ppu ?s) = 10" "lyc (ppu ?v) = 0" "lyc (ppu ?s) = 0" "lyc (ppu ?w) = 7"
    "GRAPHICS_MODE_VBLANK dmg_header = 1"
    "LCD_STAT_INTERRUPT_BIT dmg_header = 0x02" "VBLANK_INTERRUPT_BIT dmg_header = 0x01"
    by (simp_all add: power_on_def ppu_initialize_def dmg_header_def)
  from ppu_cycle_mode_entry_interrupts [OF ok, of ?v] pv
  have v: "stat (ppu (ppu_cycle dmg_header ?v)) AND STAT_MODE_BITS = 1
          \<and> window_internal_line (ppu (ppu_cycle dmg_header ?v)) = 0
          \<and> flags (interrupt_controller (ppu_cycle dmg_header ?v)) = 0x03"
    unfolding q by simp
  from ppu_cycle_mode_entry_interrupts [OF ok, of ?s] ps
  have s: "flags (interrupt_controller (ppu_cycle dmg_header ?s)) = 0x02"
    unfolding q by simp
  from ppu_cycle_mode_entry_interrupts [OF ok, of ?w] pw
  have w: "ly (ppu (ppu_cycle dmg_header ?w)) = 0
          \<and> flags (interrupt_controller (ppu_cycle dmg_header ?w)) = 0"
    unfolding q by simp
  from ok v s w show ?thesis by blast
qed

text \<open>
  The claim as stated has the LCD-status bit set by the call into VBLANK only if the
  vblank check or the OAM-search check is enabled. In the state below neither is
  enabled and no interrupt is pending, and the call sets the bit.
\<close>

theorem ppu_cycle_vblank_entry_coincidence:
  "lcdc (ppu coincidence_at_vblank) AND LCDC_LCD_ENABLE_BIT \<noteq> 0
   \<and> count (ppu coincidence_at_vblank) - 1 = 0
   \<and> stat (ppu coincidence_at_vblank) AND STAT_MODE_BITS = GRAPHICS_MODE_HBLANK dmg_header
   \<and> \<not> ly (ppu coincidence_at_vblank) + 1 < 144
   \<and> stat (ppu coincidence_at_vblank) AND STAT_VBLANK_CHECK_ENABLE = 0
   \<and> stat (ppu coincidence_at_vblank) AND STAT_OAM_SEARCH_CHECK_ENABLE = 0
   \<and> flags (interrupt_controller coincidence_at_vblank) AND LCD_STAT_INTERRUPT_BIT dmg_header = 0
   \<and> flags (interrupt_controller (ppu_cycle dmg_header coincidence_at_vblank))
        AND LCD_STAT_INTERRUPT_BIT dmg_header = LCD_STAT_INTERRUPT_BIT dmg_header
   \<and> LCD_STAT_INTERRUPT_BIT dmg_header \<noteq> 0"
  by (simp add: coincidence_at_vblank_def power_on_def ppu_initialize_def dmg_header_def
        ppu_cycle_def ppu_vblank_enter_def ppu_compare_ly_lyc_def Let_def)

subsection \<open>The tile cache\<close>

lemma and_not_mask_push_drop:
  "(x :: 'a::len word) AND NOT (mask n) = push_bit n (drop_bit n x)"
  by (rule bit_word_eqI) (auto simp add: bit_simps)

lemma pair_base: "unat ((x :: u16) AND 0xFFFE) = 2 * (unat x div 2)"
proof -
  have e: "(0xFFFE :: u16) = NOT (mask 1)" by (simp add: mask_eq_exp_minus_1)
  have lt: "unat x < 65536" using unsigned_less [of x] by simp
  then have small: "unat x div 2 mod 65536 = unat x div 2"
    "unat x div 2 * 2 mod 65536 = unat x div 2 * 2"
    by simp_all
  have "unat (push_bit 1 (drop_bit 1 x)) = unat x div 2 mod 65536 * 2 mod 65536"
    by (simp add: unat_word_ariths unat_div push_bit_eq_mult drop_bit_eq_div)
  also have "\<dots> = 2 * (unat x div 2)" unfolding small by simp
  finally show ?thesis unfolding e and_not_mask_push_drop .
qed

lemma tile_row_fold:
  "fold (\<lambda>pixel tb. tb(tile := (tb tile)(row := (tb tile row)(pixel := cc pixel)))) ps tb0 t r p
     = (if t = tile \<and> r = row \<and> p \<in> set ps then cc p else tb0 t r p)"
  by (induction ps arbitrary: tb0 rule: rev_induct) auto


lemma ppu_write_vram_below:
  assumes "address < 0x1800"
  shows "vram (ppu (ppu_write_vram gb address v)) = (vram (ppu gb))(unat address := v)"
    and "tile_buffer (ppu (ppu_write_vram gb address v)) t r p =
      (if t = unat address div 16 \<and> r = unat address mod 16 div 2 \<and> p < 8 then
         (if bit (((vram (ppu gb))(unat address := v)) (unat (address AND 0xFFFE))) (7 - p)
          then (if bit (((vram (ppu gb))(unat address := v)) (unat (address AND 0xFFFE) + 1)) (7 - p)
                then 3 else 1)
          else (if bit (((vram (ppu gb))(unat address := v)) (unat (address AND 0xFFFE) + 1)) (7 - p)
                then 2 else 0))
       else tile_buffer (ppu gb) t r p)"
proof -
  show "vram (ppu (ppu_write_vram gb address v)) = (vram (ppu gb))(unat address := v)"
    using assms by (simp add: ppu_write_vram_def Let_def)
  have "tile_buffer (ppu (ppu_write_vram gb address v)) =
          fold (\<lambda>pixel tb. tb(unat address div 16 := (tb (unat address div 16))
                  (unat address mod 16 div 2 := (tb (unat address div 16) (unat address mod 16 div 2))
                     (pixel :=
                        (if bit (((vram (ppu gb))(unat address := v)) (unat (address AND 0xFFFE))) (7 - pixel)
                         then (if bit (((vram (ppu gb))(unat address := v)) (unat (address AND 0xFFFE) + 1)) (7 - pixel)
                               then 3 else 1)
                         else (if bit (((vram (ppu gb))(unat address := v)) (unat (address AND 0xFFFE) + 1)) (7 - pixel)
                               then 2 else 0))))))
            [0..<8] (tile_buffer (ppu gb))"
    using assms
    by (simp add: ppu_write_vram_def Let_def PPU_PIXELS_PER_TILE_ROW_def
          bit_iff_and_push_bit_not_eq_0 [symmetric] del: push_bit_of_1 fun_upd_apply
          cong: if_cong)
  then show "tile_buffer (ppu (ppu_write_vram gb address v)) t r p =
      (if t = unat address div 16 \<and> r = unat address mod 16 div 2 \<and> p < 8 then
         (if bit (((vram (ppu gb))(unat address := v)) (unat (address AND 0xFFFE))) (7 - p)
          then (if bit (((vram (ppu gb))(unat address := v)) (unat (address AND 0xFFFE) + 1)) (7 - p)
                then 3 else 1)
          else (if bit (((vram (ppu gb))(unat address := v)) (unat (address AND 0xFFFE) + 1)) (7 - p)
                then 2 else 0))
       else tile_buffer (ppu gb) t r p)"
    by (simp only: tile_row_fold) (simp del: fun_upd_apply)
qed

lemma first_row_pair:
  assumes "tile < 384" and "pixel < 8"
  shows "tile_buffer (ppu (ppu_write_vram (ppu_write_vram gb (of_nat (16 * tile)) lo)
            (of_nat (16 * tile + 1)) hi)) tile 0 pixel
         = (if bit lo (7 - pixel) then 1 else 0) + (if bit hi (7 - pixel) then 2 else 0)"
proof -
  let ?a = "of_nat (16 * tile + 1) :: u16"
  have "unat ?a = (16 * tile + 1) mod 2 ^ LENGTH(16)"
    by (rule unat_of_nat)
  also have "\<dots> = 16 * tile + 1"
    using assms(1) by simp
  finally have u: "unat ?a = 16 * tile + 1" .
  have lt: "?a < 0x1800"
    unfolding word_less_nat_alt u using assms(1) by simp
  have "unat (of_nat (16 * tile) :: u16) = (16 * tile) mod 2 ^ LENGTH(16)"
    by (rule unat_of_nat)
  also have "\<dots> = 16 * tile"
    using assms(1) by simp
  finally have u0: "unat (of_nat (16 * tile) :: u16) = 16 * tile" .
  have lt0: "(of_nat (16 * tile) :: u16) < 0x1800"
    unfolding word_less_nat_alt u0 using assms(1) by simp
  have b: "unat (?a AND 0xFFFE) = 16 * tile"
    unfolding pair_base u by presburger
  have t: "(16 * tile + 1) div 16 = tile" "(16 * tile + 1) mod 16 div 2 = 0"
    by presburger+
  show ?thesis
    unfolding ppu_write_vram_below(2) [OF lt] ppu_write_vram_below(1) [OF lt0] u u0 b t
    using assms(2) by simp
qed

lemma bit_0xFF: "bit (0xFF :: u8) n \<longleftrightarrow> n < 8"
proof -
  have "(0xFF :: u8) = - 1" by simp
  then show ?thesis by (simp only: bit_simps) simp
qed

text \<open>
  Claim C5. A video-memory write below \<open>0x1800\<close> stores the byte and then sets the 8
  cache entries of the row the address belongs to (tile \<open>address / 16\<close>, row
  \<open>(address % 16) / 2\<close>): entry \<open>pixel\<close> is bit \<open>7 - pixel\<close> of the byte at the even
  address of the pair, plus twice bit \<open>7 - pixel\<close> of the byte after it. Writing
  \<open>0xFF, 0x00\<close> to the first row of any of the 384 tiles gives eight 1s, \<open>0x00, 0xFF\<close>
  eight 2s and \<open>0xFF, 0xFF\<close> eight 3s.
\<close>

theorem ppu_write_vram_tile_row:
  assumes "address < 0x1800"
  shows "(\<forall>pixel<8.
           tile_buffer (ppu (ppu_write_vram gb address v))
               (unat address div PPU_BYTES_PER_TILE)
               (unat address mod PPU_BYTES_PER_TILE div PPU_BYTES_PER_ROW) pixel
           = (if bit (vram (ppu (ppu_write_vram gb address v)) (unat (address AND 0xFFFE)))
                    (7 - pixel) then 1 else 0)
             + (if bit (vram (ppu (ppu_write_vram gb address v)) (unat (address AND 0xFFFE) + 1))
                      (7 - pixel) then 2 else 0))
       \<and> vram (ppu (ppu_write_vram gb address v)) = (vram (ppu gb))(unat address := v)
       \<and> unat (address AND 0xFFFE) = 2 * (unat address div 2)
       \<and> (\<forall>tile<384. \<forall>pixel<8.
             tile_buffer (ppu (ppu_write_vram (ppu_write_vram gb (of_nat (16 * tile)) 0xFF)
                (of_nat (16 * tile + 1)) 0x00)) tile 0 pixel = 1
           \<and> tile_buffer (ppu (ppu_write_vram (ppu_write_vram gb (of_nat (16 * tile)) 0x00)
                (of_nat (16 * tile + 1)) 0xFF)) tile 0 pixel = 2
           \<and> tile_buffer (ppu (ppu_write_vram (ppu_write_vram gb (of_nat (16 * tile)) 0xFF)
                (of_nat (16 * tile + 1)) 0xFF)) tile 0 pixel = 3)"
proof (intro conjI allI impI)
  fix pixel :: nat
  assume "pixel < 8"
  then show "tile_buffer (ppu (ppu_write_vram gb address v))
               (unat address div PPU_BYTES_PER_TILE)
               (unat address mod PPU_BYTES_PER_TILE div PPU_BYTES_PER_ROW) pixel
           = (if bit (vram (ppu (ppu_write_vram gb address v)) (unat (address AND 0xFFFE)))
                    (7 - pixel) then 1 else 0)
             + (if bit (vram (ppu (ppu_write_vram gb address v)) (unat (address AND 0xFFFE) + 1))
                      (7 - pixel) then 2 else 0)"
    unfolding ppu_write_vram_below [OF assms] by simp
next
  show "vram (ppu (ppu_write_vram gb address v)) = (vram (ppu gb))(unat address := v)"
    by (rule ppu_write_vram_below(1) [OF assms])
next
  show "unat (address AND 0xFFFE) = 2 * (unat address div 2)"
    by (rule pair_base)
next
  fix tile pixel :: nat
  assume a: "tile < 384" "pixel < 8"
  then have p: "7 - pixel < 8" by simp
  show "tile_buffer (ppu (ppu_write_vram (ppu_write_vram gb (of_nat (16 * tile)) 0xFF)
                (of_nat (16 * tile + 1)) 0x00)) tile 0 pixel = 1"
    "tile_buffer (ppu (ppu_write_vram (ppu_write_vram gb (of_nat (16 * tile)) 0x00)
                (of_nat (16 * tile + 1)) 0xFF)) tile 0 pixel = 2"
    "tile_buffer (ppu (ppu_write_vram (ppu_write_vram gb (of_nat (16 * tile)) 0xFF)
                (of_nat (16 * tile + 1)) 0xFF)) tile 0 pixel = 3"
    unfolding first_row_pair [OF a] bit_0xFF using p by simp_all
qed


theorem ppu_write_vram_tile_row_witness:
  "(0x0011 :: u16) < 0x1800
   \<and> tile_buffer (ppu (ppu_write_vram power_on 0x0011 0xA5)) 1 0 0 = 2
   \<and> tile_buffer (ppu (ppu_write_vram power_on 0x0011 0xA5)) 1 0 1 = 0
   \<and> tile_buffer (ppu (ppu_write_vram (ppu_write_vram power_on (of_nat (16 * 2)) 0xFF)
         (of_nat (16 * 2 + 1)) 0x00)) 2 0 5 = 1"
proof -
  have h: "(0x0011 :: u16) < 0x1800" by simp
  note t = ppu_write_vram_tile_row [OF h, of power_on "0xA5"]
  have z: "vram (ppu power_on) = (\<lambda>_. 0)"
    by (simp add: power_on_def ppu_initialize_def zero_ppu_def)
  have b: "bit (0xA5 :: u8) 7" "\<not> bit (0xA5 :: u8) 6"
    by simp_all
  have v: "vram (ppu (ppu_write_vram power_on 0x0011 0xA5)) = (\<lambda>_. 0)(17 := 0xA5)"
    using t [THEN conjunct2, THEN conjunct1] by (simp add: z)
  have a0: "tile_buffer (ppu (ppu_write_vram power_on 0x0011 0xA5)) 1 0 0 = 2"
    using t [THEN conjunct1, rule_format, of 0] b unfolding v by simp
  have a1: "tile_buffer (ppu (ppu_write_vram power_on 0x0011 0xA5)) 1 0 1 = 0"
    using t [THEN conjunct1, rule_format, of 1] b unfolding v by simp
  have e: "tile_buffer (ppu (ppu_write_vram (ppu_write_vram power_on (of_nat (16 * 2)) 0xFF)
         (of_nat (16 * 2 + 1)) 0x00)) 2 0 5 = 1"
    using t [THEN conjunct2, THEN conjunct2, THEN conjunct2, rule_format, of 2 5] by simp
  from h a0 a1 e show ?thesis by (intro conjI)
qed

subsection \<open>Sprite order\<close>

lemma tied_sprites_registers:
  "lcdc (ppu tied_sprites) = 0x82" "ly (ppu tied_sprites) = 0"
  "obp0 (ppu tied_sprites) = 0xE4"
  "tile_buffer (ppu tied_sprites) = (\<lambda>tile row pixel. if tile = 1 then 1 else if tile = 2 then 2
                                         else if tile = 3 then 3 else 0)"
  "display_buffer (ppu tied_sprites) = (\<lambda>_. 0)"
  by (simp_all add: tied_sprites_def power_on_def ppu_initialize_def zero_ppu_def)

lemma tied_sprites_selected:
  "select_sprites (oam (ppu tied_sprites)) (ly (ppu tied_sprites)) 8 [0..<40] []
     = [[16, 20, 1, 0], [16, 20, 2, 0], [16, 10, 3, 0]]"
  by (simp add: tied_sprites_def power_on_def ppu_initialize_def upt_conv_Cons Let_def)

lemma tied_sprites_sorted:
  "sort_sprites [[16, 20, 1, 0], [16, 20, 2, 0], [16, 10, 3, 0]]
     = [[16, 10, 3, 0], [16, 20, 2, 0], [16, 20, 1, 0]]"
  by (simp add: sort_sprites_def sprite_min_x_def Let_def)

lemma tied_sprites_no_background:
  "ppu_draw_line_window (ppu_draw_line_background (ppu tied_sprites)) = ppu tied_sprites"
  by (simp add: ppu_draw_line_window_def ppu_draw_line_background_def tied_sprites_registers)

lemma draw_sprite_oam0:
  "draw_sprite (ppu tied_sprites) 8 [16, 20, 1, 0] db
     = db(12 := 1, 13 := 1, 14 := 1, 15 := 1, 16 := 1, 17 := 1, 18 := 1, 19 := 1)"
  by (simp add: draw_sprite_def Let_def tied_sprites_registers upt_conv_Cons)

lemma draw_sprite_oam1:
  "draw_sprite (ppu tied_sprites) 8 [16, 20, 2, 0] db
     = db(12 := 2, 13 := 2, 14 := 2, 15 := 2, 16 := 2, 17 := 2, 18 := 2, 19 := 2)"
  by (simp add: draw_sprite_def Let_def tied_sprites_registers upt_conv_Cons)

lemma draw_sprite_oam2:
  "draw_sprite (ppu tied_sprites) 8 [16, 10, 3, 0] db
     = db(2 := 3, 3 := 3, 4 := 3, 5 := 3, 6 := 3, 7 := 3, 8 := 3, 9 := 3)"
  by (simp add: draw_sprite_def Let_def tied_sprites_registers upt_conv_Cons)

lemma tied_sprites_painted:
  "ppu_draw_line_sprites (ppu tied_sprites) =
     (ppu tied_sprites)\<lparr>display_buffer :=
        draw_sprite (ppu tied_sprites) 8 [16, 10, 3, 0]
          (draw_sprite (ppu tied_sprites) 8 [16, 20, 2, 0]
             (draw_sprite (ppu tied_sprites) 8 [16, 20, 1, 0] (\<lambda>_. 0)))\<rparr>"
proof -
  have sz: "(if lcdc (ppu tied_sprites) AND LCDC_SPRITE_SIZE_BIT \<noteq> 0 then 16 else 8) = (8 :: u8)"
    and en: "lcdc (ppu tied_sprites) AND LCDC_SPRITE_ENABLE_BIT \<noteq> 0"
    by (simp_all add: tied_sprites_registers)
  have order: "rev [1..<Suc (length [[16, 10, 3, 0], [16, 20, 2, 0], [16, 20, 1, 0 :: u8]])]
                 = [3, 2, 1]"
    by (simp add: upt_conv_Cons)
  show ?thesis
    unfolding ppu_draw_line_sprites_def Let_def sz tied_sprites_selected tied_sprites_sorted
      order tied_sprites_registers(5)
    using en by simp
qed

text \<open>
  Claim C4 says that the selected sprites are sorted by X with ties kept in
  object-memory order, so that of two sprites with the same X the one at the earlier
  object-memory index is painted last and wins. The sort exchanges the entry at the
  current position with the least entry after it, which moves the entry past others
  of the same X: of the three sprites above, entry 0 ends behind entry 1, is painted
  before it, and entry 1 (colour 2) is left at display column 12 where both are opaque.
\<close>

theorem ppu_draw_line_tied_sprites:
  "select_sprites (oam (ppu tied_sprites)) (ly (ppu tied_sprites)) 8 [0..<40] []
     = [[16, 20, 1, 0], [16, 20, 2, 0], [16, 10, 3, 0]]
   \<and> sort_sprites [[16, 20, 1, 0], [16, 20, 2, 0], [16, 10, 3, 0]]
     = [[16, 10, 3, 0], [16, 20, 2, 0], [16, 20, 1, 0]]
   \<and> display_buffer (ppu (ppu_draw_line tied_sprites)) 12 = 2"
proof -
  have "display_buffer (ppu (ppu_draw_line tied_sprites)) 12 = 2"
    unfolding ppu_draw_line_def tied_sprites_no_background
    by (simp add: tied_sprites_painted draw_sprite_oam0 draw_sprite_oam1 draw_sprite_oam2)
  with tied_sprites_selected tied_sprites_sorted show ?thesis by (intro conjI)
qed


subsection \<open>Export routines\<close>

declare display_data_loop.simps [simp del] background_pixels.simps [simp del]
  background_rows.simps [simp del] background_tiles.simps [simp del]
  tileset_pixels.simps [simp del] tileset_rows.simps [simp del] tileset_tiles.simps [simp del]

lemma ppu_write_vram_frame:
  "lcdc (ppu (ppu_write_vram gb address v)) = lcdc (ppu gb)"
  "vram (ppu (ppu_write_vram gb address v)) = (vram (ppu gb))(unat address := v)"
  unfolding ppu_write_vram_def Let_def by (simp_all del: fun_upd_apply)

lemma tile0_threes_cache:
  "tile_buffer (ppu tile0_threes) 0 0 0 = 3" "lcdc (ppu tile0_threes) = 0x91"
  "vram (ppu tile0_threes) 0x1800 = 0"
proof -
  show "tile_buffer (ppu tile0_threes) 0 0 0 = 3"
    unfolding tile0_threes_def using first_row_pair [of 0 0 power_on "0xFF" "0xFF"] by simp
  show "lcdc (ppu tile0_threes) = 0x91" "vram (ppu tile0_threes) 0x1800 = 0"
    unfolding tile0_threes_def ppu_write_vram_frame
    by (simp_all add: power_on_def ppu_initialize_def zero_ppu_def)
qed

text \<open>
  Claim C9 says that every element the three export routines store comes from the
  shade lookup \<open>get_pixel_color\<close>. The tile-set and background-map exports store the
  colour index of the tile cache itself: 3 here, which is not a value of the lookup.
\<close>

theorem map_exports_store_raw_index:
  "fst (ppu_get_tileset_data tile0_threes data 0) 0 = 3
   \<and> fst (ppu_get_background_data tile0_threes data 0) 0 = 3
   \<and> (\<forall>color_code. get_pixel_color color_code \<noteq> 3)"
proof -
  have t: "fst (ppu_get_tileset_data tile0_threes data 0) 0 = 3"
    unfolding ppu_get_tileset_data_def
    by (subst tileset_tiles.simps, subst tileset_rows.simps, subst tileset_pixels.simps)
       (simp add: ppu_h_defs tile0_threes_cache)
  have b: "fst (ppu_get_background_data tile0_threes data 0) 0 = 3"
    unfolding ppu_get_background_data_def
    by (subst background_tiles.simps, subst background_rows.simps, subst background_pixels.simps)
       (simp add: ppu_h_defs tile0_threes_cache)
  have c: "\<forall>color_code. get_pixel_color color_code \<noteq> 3"
    by (simp add: get_pixel_color_def)
  from t b c show ?thesis by (intro conjI)
qed

text \<open>
  The display export in full. With a requested count below 160 * 144 it stores the
  elements 0 to \<open>len\<close> inclusive, one more than requested, and returns \<open>len\<close>; with
  a larger count it stores all 160 * 144 elements and returns that number. Every element
  stored is a value of \<open>get_pixel_color\<close>, the one for \<open>PPU_LCD_COLOR_CODE\<close> when the
  LCD is disabled.
\<close>

lemma display_data_loop_step:
  assumes "x < PPU_DISPLAY_WIDTH * PPU_DISPLAY_HEIGHT" and "x \<noteq> len"
  shows "display_data_loop p len x data =
           display_data_loop p len (Suc x)
             (if lcdc p AND LCDC_LCD_ENABLE_BIT \<noteq> 0
              then data(x := get_pixel_color (display_buffer p x))
              else data(x := get_pixel_color PPU_LCD_COLOR_CODE))"
  by (subst display_data_loop.simps) (use assms in \<open>simp add: Let_def\<close>)

lemma display_data_loop_truncated:
  assumes "len < PPU_DISPLAY_WIDTH * PPU_DISPLAY_HEIGHT" and "x \<le> len"
  shows "display_data_loop p len x data =
           ((\<lambda>i. if x \<le> i \<and> i \<le> len
                  then (if lcdc p AND LCDC_LCD_ENABLE_BIT \<noteq> 0
                        then get_pixel_color (display_buffer p i)
                        else get_pixel_color PPU_LCD_COLOR_CODE)
                  else data i), len)"
  using assms
proof (induction "len - x" arbitrary: x data)
  case 0
  then have x: "x = len" by simp
  show ?case
    by (subst display_data_loop.simps) (use 0 in \<open>auto simp add: x fun_eq_iff\<close>)
next
  case (Suc n)
  then have lt: "x < len" and n: "n = len - Suc x" and le: "Suc x \<le> len" by simp_all
  have s: "x < PPU_DISPLAY_WIDTH * PPU_DISPLAY_HEIGHT" "x \<noteq> len"
    using lt Suc.prems(1) by simp_all
  show ?case
    unfolding display_data_loop_step [OF s] Suc.hyps(1) [OF n Suc.prems(1) le]
    using lt by (auto simp add: fun_eq_iff)
qed

lemma display_data_loop_full:
  assumes "PPU_DISPLAY_WIDTH * PPU_DISPLAY_HEIGHT \<le> len"
    and "x \<le> PPU_DISPLAY_WIDTH * PPU_DISPLAY_HEIGHT"
  shows "display_data_loop p len x data =
           ((\<lambda>i. if x \<le> i \<and> i < PPU_DISPLAY_WIDTH * PPU_DISPLAY_HEIGHT
                  then (if lcdc p AND LCDC_LCD_ENABLE_BIT \<noteq> 0
                        then get_pixel_color (display_buffer p i)
                        else get_pixel_color PPU_LCD_COLOR_CODE)
                  else data i), PPU_DISPLAY_WIDTH * PPU_DISPLAY_HEIGHT)"
  using assms
proof (induction "PPU_DISPLAY_WIDTH * PPU_DISPLAY_HEIGHT - x" arbitrary: x data)
  case 0
  then have x: "x = PPU_DISPLAY_WIDTH * PPU_DISPLAY_HEIGHT" by simp
  show ?case
    by (subst display_data_loop.simps) (auto simp add: x fun_eq_iff)
next
  case (Suc n)
  then have lt: "x < PPU_DISPLAY_WIDTH * PPU_DISPLAY_HEIGHT"
    and n: "n = PPU_DISPLAY_WIDTH * PPU_DISPLAY_HEIGHT - Suc x"
    and le: "Suc x \<le> PPU_DISPLAY_WIDTH * PPU_DISPLAY_HEIGHT" by simp_all
  have s: "x \<noteq> len" using lt Suc.prems(1) by simp
  show ?case
    unfolding display_data_loop_step [OF lt s] Suc.hyps(1) [OF n Suc.prems(1) le]
    using lt by (auto simp add: fun_eq_iff)
qed

text \<open>
  Claim C10 says that an export routine stores at most the requested number of
  elements and returns the number it stored. Each routine tests the index against the
  count after the store: with a requested count of 0 each stores element 0 and returns
  0, and the display export with a count of 99 stores element 99 as well.
\<close>

theorem exports_store_past_requested_count:
  "snd (ppu_get_display_data power_on (\<lambda>_. 0xDEADBEEF) 0) = 0
   \<and> fst (ppu_get_display_data power_on (\<lambda>_. 0xDEADBEEF) 0) 0 = 0xF5F5F5F5
   \<and> snd (ppu_get_background_data power_on (\<lambda>_. 0xDEADBEEF) 0) = 0
   \<and> fst (ppu_get_background_data power_on (\<lambda>_. 0xDEADBEEF) 0) 0 = 0
   \<and> snd (ppu_get_tileset_data power_on (\<lambda>_. 0xDEADBEEF) 0) = 0
   \<and> fst (ppu_get_tileset_data power_on (\<lambda>_. 0xDEADBEEF) 0) 0 = 0
   \<and> snd (ppu_get_display_data power_on (\<lambda>_. 0xDEADBEEF) 99) = 99
   \<and> fst (ppu_get_display_data power_on (\<lambda>_. 0xDEADBEEF) 99) 99 = 0xF5F5F5F5"
proof -
  have r: "lcdc (ppu power_on) = 0x91" "display_buffer (ppu power_on) = (\<lambda>_. 0)"
    "tile_buffer (ppu power_on) = (\<lambda>_ _ _. 0)" "vram (ppu power_on) = (\<lambda>_. 0)"
    by (simp_all add: power_on_def ppu_initialize_def zero_ppu_def)
  have d: "ppu_get_display_data power_on (\<lambda>_. 0xDEADBEEF) 0
             = ((\<lambda>_. 0xDEADBEEF)(0 := 0xF5F5F5F5), 0)"
    unfolding ppu_get_display_data_def
    by (subst display_data_loop.simps) (simp add: ppu_h_defs r get_pixel_color_def)
  have b: "ppu_get_background_data power_on (\<lambda>_. 0xDEADBEEF) 0 = ((\<lambda>_. 0xDEADBEEF)(0 := 0), 0)"
    unfolding ppu_get_background_data_def
    by (subst background_tiles.simps, subst background_rows.simps, subst background_pixels.simps)
       (simp add: ppu_h_defs r)
  have t: "ppu_get_tileset_data power_on (\<lambda>_. 0xDEADBEEF) 0 = ((\<lambda>_. 0xDEADBEEF)(0 := 0), 0)"
    unfolding ppu_get_tileset_data_def
    by (subst tileset_tiles.simps, subst tileset_rows.simps, subst tileset_pixels.simps)
       (simp add: ppu_h_defs r)
  have l: "ppu_get_display_data power_on (\<lambda>_. 0xDEADBEEF) 99
             = ((\<lambda>i. if i \<le> 99 then 0xF5F5F5F5 else 0xDEADBEEF), 99)"
    unfolding ppu_get_display_data_def
    by (subst display_data_loop_truncated)
       (simp_all add: ppu_h_defs r get_pixel_color_def cong: if_cong)
  show ?thesis unfolding d b t l by simp
qed

end
